theory Spec2Isabelle
  imports Complex_Main "HOL-Library.Multiset"
begin

section \<open>ServiVENT: the transactional edge functions\<close>

text \<open>
  The handlers \<^verbatim>\<open>create-sale\<close>, \<^verbatim>\<open>create-purchase\<close>, \<^verbatim>\<open>registrar-pago-compra\<close> and
  \<^verbatim>\<open>receive-purchase-stock\<close> are embedded as functions from a request and a database
  state to a response and a database state. Every \<^verbatim>\<open>throw\<close> of the source is a value
  \<open>Inl e\<close>, every SQL statement is a function on the connection, and the \<^verbatim>\<open>catch\<close> block
  with its \<^verbatim>\<open>ROLLBACK\<close> is written out.

  A JSON number and a numeric column are a \<open>real\<close>, and what SQL computes on numeric
  columns (sums, products, quotients) is the mathematical result. What JavaScript
  computes on numbers read from the database is not: the handlers subtract and multiply
  in double precision, and these operations are taken from the environment, so that every
  statement holds whatever they round to.
\<close>

subsection \<open>JavaScript values of a parsed JSON body\<close>

datatype jsval =
    JUndefined
  | JNull
  | JBool bool
  | JNum real
  | JStr string
  | JArr "jsval list"
  | JObj "(string \<times> jsval) list"

text \<open>\<^verbatim>\<open>!x\<close> is \<open>\<not> truthy x\<close>.\<close>

fun truthy :: "jsval \<Rightarrow> bool" where
  "truthy JUndefined = False"
| "truthy JNull = False"
| "truthy (JBool b) = b"
| "truthy (JNum r) = (r \<noteq> 0)"
| "truthy (JStr s) = (s \<noteq> [])"
| "truthy (JArr xs) = True"
| "truthy (JObj kvs) = True"

text \<open>\<^verbatim>\<open>typeof x === 'number'\<close>\<close>

fun is_number :: "jsval \<Rightarrow> bool" where
  "is_number (JNum r) = True"
| "is_number v = False"

fun num :: "jsval \<Rightarrow> real option" where
  "num (JNum r) = Some r"
| "num v = None"

text \<open>\<^verbatim>\<open>Array.isArray(x)\<close> and the elements of an array.\<close>

fun is_array :: "jsval \<Rightarrow> bool" where
  "is_array (JArr xs) = True"
| "is_array v = False"

fun elems :: "jsval \<Rightarrow> jsval list" where
  "elems (JArr xs) = xs"
| "elems v = []"

text \<open>
  Reading a property: on \<^verbatim>\<open>null\<close> and \<^verbatim>\<open>undefined\<close> the read throws a TypeError
  (\<open>nullish\<close>); on an object it is the member or \<^verbatim>\<open>undefined\<close>; a number, a string, a
  boolean and an array have none of the properties the handlers read.
\<close>

fun nullish :: "jsval \<Rightarrow> bool" where
  "nullish JUndefined = True"
| "nullish JNull = True"
| "nullish v = False"

fun js_prop :: "jsval \<Rightarrow> string \<Rightarrow> jsval" where
  "js_prop (JObj kvs) k = (case map_of kvs k of None \<Rightarrow> JUndefined | Some v \<Rightarrow> v)"
| "js_prop v k = JUndefined"

subsection \<open>Errors and responses\<close>

text \<open>The name in the insufficient-stock message: the product's \<^verbatim>\<open>Nombre\<close>, or
  \<^verbatim>\<open>Producto ID ${item.id_producto}\<close>.\<close>

datatype etiqueta = Nombre string | ProductoID real

text \<open>One constructor for each message the handlers throw, carrying the values the
  message interpolates, and one for each way a statement is rejected by the database.\<close>

datatype error =
    SyntaxError
  | TypeError
  | SerializeBigInt
  | VentaDatosInvalidos
  | VentaItemInvalido jsval
  | StockInsuficiente etiqueta real real
  | CompraDatosInvalidos
  | CompraItemInvalido jsval
  | PagoDatosInvalidos
  | PagoCompraNoEncontrada jsval
  | CompraIdObligatorio
  | CompraNoEncontrada jsval
  | CompraYaEnEstado "string option"
  | CompraSinProductos
  | DbInvalidInput
  | DbUniqueViolation
  | DbForeignKeyViolation
  | DbNotNullViolation
  | DbDivisionByZero

datatype payload =
    Preflight
  | ServerConfigurationError
  | Msg error
  | MsgDatabaseError error
  | VentaCreada int
  | CompraCreada int
  | PagoRegistrado
  | StockActualizado

record response =
  status :: nat
  payload :: payload

record request =
  http_method :: string
  body :: "jsval option"

subsection \<open>The tables\<close>

record venta =
  v_id_sucursal :: int
  v_monto_total :: real
  v_fecha_venta :: nat
  v_id_usuario :: "string option"
  v_metodo_pago :: "string option"
  v_estado :: string

record detalle_venta =
  dv_id_venta :: int
  dv_id_producto :: int
  dv_cantidad :: real
  dv_precio_unitario :: real

record inventario =
  cantidad :: real
  costo_promedio :: real

record compra =
  c_id_proveedor :: "string option"
  c_id_sucursal :: int
  c_monto_total :: real
  c_estado :: "string option"
  c_fecha_compra :: nat
  c_tipo_cambio :: "real option"
  c_estado_pago :: "string option"

record detalle_compra =
  dc_id_compra :: int
  dc_id_producto :: int
  dc_cantidad :: real
  dc_costo_unitario :: real
  dc_moneda :: "string option"

record pago_compra =
  p_id_compra :: int
  p_monto :: real
  p_fecha_pago :: "string option"
  p_metodo_pago :: "string option"
  p_notas :: "string option"

text \<open>
  \<open>Ventas\<close> and \<open>Compras\<close> are keyed by their id, \<open>Inventario\<close> by the pair
  (id_producto, id_sucursal) that \<^verbatim>\<open>ON CONFLICT\<close> names, \<open>Productos\<close> by id with the one
  column \<^verbatim>\<open>Nombre\<close> the handlers read.
\<close>

record db =
  Ventas :: "int \<rightharpoonup> venta"
  Detalles_Venta :: "detalle_venta list"
  Inventario :: "int \<times> int \<rightharpoonup> inventario"
  Productos :: "int \<rightharpoonup> string"
  Compras :: "int \<rightharpoonup> compra"
  Detalles_Compra :: "detalle_compra list"
  Pagos_Compra :: "pago_compra list"

text \<open>
  What the handlers use and the repository does not contain: whether the connection
  string is set, how the driver and the database turn a query argument into a bigint id
  or a text value (\<open>None\<close> for an id: the statement is rejected; \<open>None\<close> for a
  text: SQL NULL), the ids the sequences hand out, the clock, the defaults of the columns
  an INSERT leaves out, whether \<^verbatim>\<open>Pagos_Compra.id_compra\<close> is declared a foreign key,
  whether \<^verbatim>\<open>Compras.estado\<close> is declared NOT NULL, and whether the driver returns
  \<^verbatim>\<open>Compras.id\<close> as a BigInt (as it does \<^verbatim>\<open>Ventas.id\<close>, by the comment in create-sale).
  The double-precision arithmetic of JavaScript is here too: the number that a numeric
  value read from the database becomes in a comparison (\<open>js_number\<close>), and the results
  of \<^verbatim>\<open>a - b\<close> and \<^verbatim>\<open>a * b\<close> on such values (\<open>js_minus\<close>, \<open>js_times\<close>).
\<close>

record env =
  pool_ok :: bool
  to_bigint :: "jsval \<Rightarrow> int option"
  to_text :: "jsval \<Rightarrow> string option"
  venta_id :: int
  compra_id :: int
  now :: nat
  default_tipo_cambio :: "real option"
  default_estado_pago :: "string option"
  default_moneda :: "string option"
  fk_pagos_compra :: bool
  compras_estado_not_null :: bool
  compras_id_bigint :: bool
  js_number :: "real \<Rightarrow> real"
  js_minus :: "real \<Rightarrow> real \<Rightarrow> real"
  js_times :: "real \<Rightarrow> real \<Rightarrow> real"

subsection \<open>Connection and transaction\<close>

text \<open>A connection holds the current state and, inside a transaction, the state at
  \<^verbatim>\<open>BEGIN\<close>.\<close>

record conn =
  snapshot :: "db option"
  current :: db

definition connect :: "db \<Rightarrow> conn" where
  "connect d = \<lparr>snapshot = None, current = d\<rparr>"

definition sql_begin :: "conn \<Rightarrow> conn" where
  "sql_begin c = (case snapshot c of None \<Rightarrow> c\<lparr>snapshot := Some (current c)\<rparr> | Some s \<Rightarrow> c)"

definition sql_commit :: "conn \<Rightarrow> conn" where
  "sql_commit c = c\<lparr>snapshot := None\<rparr>"

definition sql_rollback :: "conn \<Rightarrow> conn" where
  "sql_rollback c = (case snapshot c of None \<Rightarrow> c | Some s \<Rightarrow> \<lparr>snapshot = None, current = s\<rparr>)"

text \<open>\<^verbatim>\<open>connection.queryObject\<close>: a statement runs on the current state; a rejected
  statement changes nothing and throws.\<close>

definition queryObject :: "(db \<Rightarrow> error + 'a \<times> db) \<Rightarrow> conn \<Rightarrow> (error + 'a) \<times> conn" where
  "queryObject q c =
     (case q (current c) of
        Inl e \<Rightarrow> (Inl e, c)
      | Inr (x, d) \<Rightarrow> (Inr x, c\<lparr>current := d\<rparr>))"

subsection \<open>create-sale\<close>

text \<open>\<^verbatim>\<open>INSERT INTO "Ventas" (...) VALUES ($1, $2, $3, $4, $5, 'Completada') RETURNING id\<close>\<close>

definition insert_venta :: "env \<Rightarrow> jsval \<Rightarrow> real \<Rightarrow> jsval \<Rightarrow> jsval \<Rightarrow> db \<Rightarrow> error + int \<times> db" where
  "insert_venta env id_sucursal monto_total id_usuario metodo_pago d =
     (case to_bigint env id_sucursal of
        None \<Rightarrow> Inl DbInvalidInput
      | Some b \<Rightarrow>
          if Ventas d (venta_id env) \<noteq> None then Inl DbUniqueViolation
          else Inr (venta_id env,
                 d\<lparr>Ventas := (Ventas d)(venta_id env \<mapsto>
                      \<lparr>v_id_sucursal = b, v_monto_total = monto_total, v_fecha_venta = now env,
                       v_id_usuario = to_text env id_usuario,
                       v_metodo_pago = to_text env metodo_pago,
                       v_estado = ''Completada''\<rparr>)\<rparr>))"

text \<open>\<^verbatim>\<open>INSERT INTO "Detalles_Venta" (id_venta, id_producto, cantidad, precio_unitario)\<close>\<close>

definition insert_detalle_venta :: "env \<Rightarrow> int \<Rightarrow> real \<Rightarrow> real \<Rightarrow> real \<Rightarrow> db \<Rightarrow> error + unit \<times> db" where
  "insert_detalle_venta env id_venta id_producto cant precio_unitario d =
     (case to_bigint env (JNum id_producto) of
        None \<Rightarrow> Inl DbInvalidInput
      | Some p \<Rightarrow>
          Inr ((), d\<lparr>Detalles_Venta := Detalles_Venta d @
                 [\<lparr>dv_id_venta = id_venta, dv_id_producto = p, dv_cantidad = cant,
                   dv_precio_unitario = precio_unitario\<rparr>]\<rparr>))"

text \<open>
  \<^verbatim>\<open>UPDATE "Inventario" SET cantidad = cantidad - $1
   WHERE id_producto = $2 AND id_sucursal = $3 AND cantidad >= $1\<close>;
  the result is \<^verbatim>\<open>rowCount\<close>.
\<close>

definition update_inventario :: "env \<Rightarrow> real \<Rightarrow> real \<Rightarrow> jsval \<Rightarrow> db \<Rightarrow> error + nat \<times> db" where
  "update_inventario env cant id_producto id_sucursal d =
     (case to_bigint env (JNum id_producto) of
        None \<Rightarrow> Inl DbInvalidInput
      | Some p \<Rightarrow>
          (case to_bigint env id_sucursal of
             None \<Rightarrow> Inl DbInvalidInput
           | Some b \<Rightarrow>
               (case Inventario d (p, b) of
                  None \<Rightarrow> Inr (0, d)
                | Some r \<Rightarrow>
                    if cantidad r \<ge> cant
                    then Inr (1, d\<lparr>Inventario := (Inventario d)((p, b) \<mapsto> r\<lparr>cantidad := cantidad r - cant\<rparr>)\<rparr>)
                    else Inr (0, d))))"

text \<open>
  \<^verbatim>\<open>SELECT p."Nombre", i.cantidad FROM "Inventario" i JOIN "Productos" p ON p.id = i.id_producto
   WHERE i.id_producto = $1 AND i.id_sucursal = $2\<close>
\<close>

definition select_stock_info :: "env \<Rightarrow> real \<Rightarrow> jsval \<Rightarrow> db \<Rightarrow> error + (string \<times> real) list \<times> db" where
  "select_stock_info env id_producto id_sucursal d =
     (case to_bigint env (JNum id_producto) of
        None \<Rightarrow> Inl DbInvalidInput
      | Some p \<Rightarrow>
          (case to_bigint env id_sucursal of
             None \<Rightarrow> Inl DbInvalidInput
           | Some b \<Rightarrow>
               (case Inventario d (p, b) of
                  None \<Rightarrow> Inr ([], d)
                | Some r \<Rightarrow>
                    (case Productos d p of
                       None \<Rightarrow> Inr ([], d)
                     | Some n \<Rightarrow> Inr ([(n, cantidad r)], d)))))"

text \<open>\<^verbatim>\<open>stockInfo.rows[0]?.Nombre || `Producto ID ${item.id_producto}`\<close> and
  \<^verbatim>\<open>stockInfo.rows[0]?.cantidad ?? 0\<close>\<close>

definition productName :: "(string \<times> real) list \<Rightarrow> real \<Rightarrow> etiqueta" where
  "productName rows id_producto =
     (case rows of
        [] \<Rightarrow> ProductoID id_producto
      | r # rs \<Rightarrow> if fst r \<noteq> [] then Nombre (fst r) else ProductoID id_producto)"

definition availableStock :: "(string \<times> real) list \<Rightarrow> real" where
  "availableStock rows = (case rows of [] \<Rightarrow> 0 | r # rs \<Rightarrow> snd r)"

text \<open>The condition under which the loop throws \<^verbatim>\<open>Datos de item ...\<close>:
  a field that is not a number, or \<^verbatim>\<open>item.cantidad <= 0\<close>.\<close>

definition venta_item_invalido :: "jsval \<Rightarrow> bool" where
  "venta_item_invalido item =
     (\<not> is_number (js_prop item ''id_producto'') \<or> \<not> is_number (js_prop item ''cantidad'')
      \<or> \<not> is_number (js_prop item ''precio_unitario'')
      \<or> (case num (js_prop item ''cantidad'') of None \<Rightarrow> False | Some q \<Rightarrow> q \<le> 0))"

text \<open>The body of the loop over \<^verbatim>\<open>items\<close>; the three fields are numbers exactly when
  the first three disjuncts above are false.\<close>

definition sale_item :: "env \<Rightarrow> jsval \<Rightarrow> int \<Rightarrow> jsval \<Rightarrow> conn \<Rightarrow> (error + unit) \<times> conn" where
  "sale_item env id_sucursal newVentaId item c =
     (if nullish item then (Inl TypeError, c)
      else
        case (num (js_prop item ''id_producto''), num (js_prop item ''cantidad''),
              num (js_prop item ''precio_unitario'')) of
          (Some id_producto, Some cant, Some precio_unitario) \<Rightarrow>
            if cant \<le> 0 then (Inl (VentaItemInvalido (js_prop item ''id_producto'')), c)
            else
              (case queryObject (insert_detalle_venta env newVentaId id_producto cant precio_unitario) c of
                 (Inl e, c1) \<Rightarrow> (Inl e, c1)
               | (Inr u, c1) \<Rightarrow>
                   (case queryObject (update_inventario env cant id_producto id_sucursal) c1 of
                      (Inl e, c2) \<Rightarrow> (Inl e, c2)
                    | (Inr rowCount, c2) \<Rightarrow>
                        if rowCount = 0 then
                          (case queryObject (select_stock_info env id_producto id_sucursal) c2 of
                             (Inl e, c3) \<Rightarrow> (Inl e, c3)
                           | (Inr rows, c3) \<Rightarrow>
                               (Inl (StockInsuficiente (productName rows id_producto)
                                       (availableStock rows) cant), c3))
                        else (Inr (), c2)))
        | _ \<Rightarrow> (Inl (VentaItemInvalido (js_prop item ''id_producto'')), c))"

fun sale_items :: "env \<Rightarrow> jsval \<Rightarrow> int \<Rightarrow> jsval list \<Rightarrow> conn \<Rightarrow> (error + unit) \<times> conn" where
  "sale_items env id_sucursal newVentaId [] c = (Inr (), c)"
| "sale_items env id_sucursal newVentaId (item # rest) c =
     (case sale_item env id_sucursal newVentaId item c of
        (Inl e, c') \<Rightarrow> (Inl e, c')
      | (Inr u, c') \<Rightarrow> sale_items env id_sucursal newVentaId rest c')"

text \<open>The condition of the first \<^verbatim>\<open>if\<close>, on the destructured body.\<close>

definition venta_datos_invalidos :: "jsval \<Rightarrow> bool" where
  "venta_datos_invalidos b =
     (\<not> truthy (js_prop b ''id_sucursal'') \<or> \<not> truthy (js_prop b ''id_usuario'')
      \<or> \<not> is_number (js_prop b ''monto_total'') \<or> \<not> truthy (js_prop b ''metodo_pago'')
      \<or> \<not> truthy (js_prop b ''items'') \<or> \<not> is_array (js_prop b ''items'')
      \<or> length (elems (js_prop b ''items'')) = 0)"

text \<open>The \<^verbatim>\<open>try\<close> block: the result is the new sale's id or the error thrown, with the
  connection as it is at that moment. Once the first \<^verbatim>\<open>if\<close> has passed, \<^verbatim>\<open>monto_total\<close>
  is a number, so the \<open>None\<close> branch below it is never taken.\<close>

definition create_sale_try :: "env \<Rightarrow> jsval option \<Rightarrow> conn \<Rightarrow> (error + int) \<times> conn" where
  "create_sale_try env bdy c =
     (case bdy of
        None \<Rightarrow> (Inl SyntaxError, c)
      | Some b \<Rightarrow>
          if nullish b then (Inl TypeError, c)
          else
            let id_sucursal = js_prop b ''id_sucursal'';
                id_usuario = js_prop b ''id_usuario'';
                monto_total = js_prop b ''monto_total'';
                metodo_pago = js_prop b ''metodo_pago'';
                items = js_prop b ''items''
            in
              if venta_datos_invalidos b then (Inl VentaDatosInvalidos, c)
              else
                (case num monto_total of
                   None \<Rightarrow> (Inl VentaDatosInvalidos, c)
                 | Some monto \<Rightarrow>
                     (case queryObject (insert_venta env id_sucursal monto id_usuario metodo_pago)
                             (sql_begin c) of
                        (Inl e, c1) \<Rightarrow> (Inl e, c1)
                      | (Inr newVentaId, c1) \<Rightarrow>
                          (case sale_items env id_sucursal newVentaId (elems items) c1 of
                             (Inl e, c2) \<Rightarrow> (Inl e, c2)
                           | (Inr u, c2) \<Rightarrow> (Inr newVentaId, sql_commit c2)))))"

text \<open>The handler: preflight, the configuration check, the \<^verbatim>\<open>try\<close> block, and the
  \<^verbatim>\<open>catch\<close> block that rolls back and answers 500 with \<^verbatim>\<open>{msg: error.message}\<close>.\<close>

definition create_sale :: "env \<Rightarrow> request \<Rightarrow> db \<Rightarrow> response \<times> db" where
  "create_sale env req d =
     (if http_method req = ''OPTIONS'' then (\<lparr>status = 200, payload = Preflight\<rparr>, d)
      else if \<not> pool_ok env then (\<lparr>status = 500, payload = ServerConfigurationError\<rparr>, d)
      else
        case create_sale_try env (body req) (connect d) of
          (Inr newVentaId, c) \<Rightarrow> (\<lparr>status = 200, payload = VentaCreada newVentaId\<rparr>, current c)
        | (Inl e, c) \<Rightarrow> (\<lparr>status = 500, payload = Msg e\<rparr>, current (sql_rollback c)))"

subsection \<open>create-purchase\<close>

text \<open>\<^verbatim>\<open>INSERT INTO "Compras" (id_proveedor, id_sucursal, monto_total, estado, fecha_compra)
  VALUES ($1, $2, $3, $4, $5) RETURNING id\<close>; an \<^verbatim>\<open>estado\<close> that is \<^verbatim>\<open>undefined\<close> is sent as
  NULL.\<close>

definition insert_compra :: "env \<Rightarrow> jsval \<Rightarrow> jsval \<Rightarrow> real \<Rightarrow> jsval \<Rightarrow> db \<Rightarrow> error + int \<times> db" where
  "insert_compra env id_proveedor id_sucursal monto_total estado d =
     (case to_bigint env id_sucursal of
        None \<Rightarrow> Inl DbInvalidInput
      | Some b \<Rightarrow>
          if compras_estado_not_null env \<and> to_text env estado = None then Inl DbNotNullViolation
          else if Compras d (compra_id env) \<noteq> None then Inl DbUniqueViolation
          else Inr (compra_id env,
                 d\<lparr>Compras := (Compras d)(compra_id env \<mapsto>
                      \<lparr>c_id_proveedor = to_text env id_proveedor, c_id_sucursal = b,
                       c_monto_total = monto_total, c_estado = to_text env estado,
                       c_fecha_compra = now env, c_tipo_cambio = default_tipo_cambio env,
                       c_estado_pago = default_estado_pago env\<rparr>)\<rparr>))"

text \<open>\<^verbatim>\<open>INSERT INTO "Detalles_Compra" (id_compra, id_producto, cantidad, costo_unitario)\<close>\<close>

definition insert_detalle_compra :: "env \<Rightarrow> int \<Rightarrow> real \<Rightarrow> real \<Rightarrow> real \<Rightarrow> db \<Rightarrow> error + unit \<times> db" where
  "insert_detalle_compra env id_compra id_producto cant costo_unitario d =
     (case to_bigint env (JNum id_producto) of
        None \<Rightarrow> Inl DbInvalidInput
      | Some p \<Rightarrow>
          Inr ((), d\<lparr>Detalles_Compra := Detalles_Compra d @
                 [\<lparr>dc_id_compra = id_compra, dc_id_producto = p, dc_cantidad = cant,
                   dc_costo_unitario = costo_unitario, dc_moneda = default_moneda env\<rparr>]\<rparr>))"

text \<open>
  The \<^verbatim>\<open>DO UPDATE SET\<close> of create-purchase on the row in conflict:
  \<^verbatim>\<open>costo_promedio = ((cantidad * costo_promedio) + ($3 * $4)) / (cantidad + $3),
  cantidad = cantidad + $3\<close>. A zero divisor is a database error.
\<close>

definition merge_compra :: "inventario \<Rightarrow> real \<Rightarrow> real \<Rightarrow> error + inventario" where
  "merge_compra r cant costo =
     (if cantidad r + cant = 0 then Inl DbDivisionByZero
      else Inr \<lparr>cantidad = cantidad r + cant,
                costo_promedio = ((cantidad r * costo_promedio r) + (cant * costo)) / (cantidad r + cant)\<rparr>)"

text \<open>\<^verbatim>\<open>INSERT INTO "Inventario" ... VALUES ($1, $2, $3, $4) ON CONFLICT (id_producto, id_sucursal)
  DO UPDATE SET ...\<close> on the row of a product and a branch.\<close>

definition upsert_compra_at :: "int \<times> int \<Rightarrow> real \<Rightarrow> real \<Rightarrow> db \<Rightarrow> error + unit \<times> db" where
  "upsert_compra_at k cant costo d =
     (case Inventario d k of
        None \<Rightarrow> Inr ((), d\<lparr>Inventario := (Inventario d)(k \<mapsto> \<lparr>cantidad = cant, costo_promedio = costo\<rparr>)\<rparr>)
      | Some r \<Rightarrow>
          (case merge_compra r cant costo of
             Inl e \<Rightarrow> Inl e
           | Inr r' \<Rightarrow> Inr ((), d\<lparr>Inventario := (Inventario d)(k \<mapsto> r')\<rparr>)))"

definition upsert_inventario_compra :: "env \<Rightarrow> real \<Rightarrow> jsval \<Rightarrow> real \<Rightarrow> real \<Rightarrow> db \<Rightarrow> error + unit \<times> db" where
  "upsert_inventario_compra env id_producto id_sucursal cant costo_unitario d =
     (case to_bigint env (JNum id_producto) of
        None \<Rightarrow> Inl DbInvalidInput
      | Some p \<Rightarrow>
          (case to_bigint env id_sucursal of
             None \<Rightarrow> Inl DbInvalidInput
           | Some b \<Rightarrow> upsert_compra_at (p, b) cant costo_unitario d))"

definition compra_item_invalido :: "jsval \<Rightarrow> bool" where
  "compra_item_invalido item =
     (\<not> is_number (js_prop item ''id_producto'') \<or> \<not> is_number (js_prop item ''cantidad'')
      \<or> \<not> is_number (js_prop item ''costo_unitario'')
      \<or> (case num (js_prop item ''cantidad'') of None \<Rightarrow> False | Some q \<Rightarrow> q \<le> 0))"

definition purchase_item :: "env \<Rightarrow> jsval \<Rightarrow> int \<Rightarrow> jsval \<Rightarrow> conn \<Rightarrow> (error + unit) \<times> conn" where
  "purchase_item env id_sucursal newCompraId item c =
     (if nullish item then (Inl TypeError, c)
      else
        case (num (js_prop item ''id_producto''), num (js_prop item ''cantidad''),
              num (js_prop item ''costo_unitario'')) of
          (Some id_producto, Some cant, Some costo_unitario) \<Rightarrow>
            if cant \<le> 0 then (Inl (CompraItemInvalido (js_prop item ''id_producto'')), c)
            else
              (case queryObject (insert_detalle_compra env newCompraId id_producto cant costo_unitario) c of
                 (Inl e, c1) \<Rightarrow> (Inl e, c1)
               | (Inr u, c1) \<Rightarrow>
                   queryObject (upsert_inventario_compra env id_producto id_sucursal cant costo_unitario) c1)
        | _ \<Rightarrow> (Inl (CompraItemInvalido (js_prop item ''id_producto'')), c))"

fun purchase_items :: "env \<Rightarrow> jsval \<Rightarrow> int \<Rightarrow> jsval list \<Rightarrow> conn \<Rightarrow> (error + unit) \<times> conn" where
  "purchase_items env id_sucursal newCompraId [] c = (Inr (), c)"
| "purchase_items env id_sucursal newCompraId (item # rest) c =
     (case purchase_item env id_sucursal newCompraId item c of
        (Inl e, c') \<Rightarrow> (Inl e, c')
      | (Inr u, c') \<Rightarrow> purchase_items env id_sucursal newCompraId rest c')"

definition compra_datos_invalidos :: "jsval \<Rightarrow> bool" where
  "compra_datos_invalidos b =
     (\<not> truthy (js_prop b ''id_proveedor'') \<or> \<not> truthy (js_prop b ''id_sucursal'')
      \<or> \<not> is_number (js_prop b ''monto_total'')
      \<or> \<not> truthy (js_prop b ''items'') \<or> \<not> is_array (js_prop b ''items'')
      \<or> length (elems (js_prop b ''items'')) = 0)"

definition create_purchase_try :: "env \<Rightarrow> jsval option \<Rightarrow> conn \<Rightarrow> (error + int) \<times> conn" where
  "create_purchase_try env bdy c =
     (case bdy of
        None \<Rightarrow> (Inl SyntaxError, c)
      | Some b \<Rightarrow>
          if nullish b then (Inl TypeError, c)
          else
            let id_proveedor = js_prop b ''id_proveedor'';
                id_sucursal = js_prop b ''id_sucursal'';
                monto_total = js_prop b ''monto_total'';
                estado = js_prop b ''estado'';
                items = js_prop b ''items''
            in
              if compra_datos_invalidos b then (Inl CompraDatosInvalidos, c)
              else
                (case num monto_total of
                   None \<Rightarrow> (Inl CompraDatosInvalidos, c)
                 | Some monto \<Rightarrow>
                     (case queryObject (insert_compra env id_proveedor id_sucursal monto estado)
                             (sql_begin c) of
                        (Inl e, c1) \<Rightarrow> (Inl e, c1)
                      | (Inr newCompraId, c1) \<Rightarrow>
                          (case purchase_items env id_sucursal newCompraId (elems items) c1 of
                             (Inl e, c2) \<Rightarrow> (Inl e, c2)
                           | (Inr u, c2) \<Rightarrow> (Inr newCompraId, sql_commit c2)))))"

text \<open>
  The \<^verbatim>\<open>catch\<close> block answers 500 with \<^verbatim>\<open>{msg: `Database Error: ${error.message}`}\<close>.
  The success response is built inside the \<^verbatim>\<open>try\<close> block, after the COMMIT, by
  \<^verbatim>\<open>JSON.stringify({ success: true, compraId: newCompraId })\<close> on the id as the driver
  returned it (create-sale converts it with \<^verbatim>\<open>Number\<close> first): on a BigInt the call throws,
  and the \<^verbatim>\<open>catch\<close> block runs with the transaction already committed.
\<close>

definition create_purchase :: "env \<Rightarrow> request \<Rightarrow> db \<Rightarrow> response \<times> db" where
  "create_purchase env req d =
     (if http_method req = ''OPTIONS'' then (\<lparr>status = 200, payload = Preflight\<rparr>, d)
      else if \<not> pool_ok env then (\<lparr>status = 500, payload = ServerConfigurationError\<rparr>, d)
      else
        case create_purchase_try env (body req) (connect d) of
          (Inr newCompraId, c) \<Rightarrow>
            if compras_id_bigint env
            then (\<lparr>status = 500, payload = MsgDatabaseError SerializeBigInt\<rparr>, current (sql_rollback c))
            else (\<lparr>status = 200, payload = CompraCreada newCompraId\<rparr>, current c)
        | (Inl e, c) \<Rightarrow> (\<lparr>status = 500, payload = MsgDatabaseError e\<rparr>, current (sql_rollback c)))"

subsection \<open>receive-purchase-stock\<close>

text \<open>\<^verbatim>\<open>SELECT "estado", "id_sucursal", "tipo_cambio" FROM "Compras" WHERE "id" = $1 FOR UPDATE\<close>\<close>

definition select_compra_for_update :: "env \<Rightarrow> jsval \<Rightarrow> db \<Rightarrow> error + compra list \<times> db" where
  "select_compra_for_update env purchase_id d =
     (case to_bigint env purchase_id of
        None \<Rightarrow> Inl DbInvalidInput
      | Some i \<Rightarrow> Inr ((case Compras d i of None \<Rightarrow> [] | Some r \<Rightarrow> [r]), d))"

text \<open>\<^verbatim>\<open>purchase.tipo_cambio || 1\<close>: NULL and 0 both give 1.\<close>

definition exchangeRate :: "compra \<Rightarrow> real" where
  "exchangeRate purchase =
     (case c_tipo_cambio purchase of None \<Rightarrow> 1 | Some x \<Rightarrow> if x = 0 then 1 else x)"

text \<open>\<^verbatim>\<open>SELECT "id_producto", "cantidad", "costo_unitario", "moneda" FROM "Detalles_Compra"
  WHERE "id_compra" = $1\<close>\<close>

definition select_detalles_compra :: "env \<Rightarrow> jsval \<Rightarrow> db \<Rightarrow> error + detalle_compra list \<times> db" where
  "select_detalles_compra env purchase_id d =
     (case to_bigint env purchase_id of
        None \<Rightarrow> Inl DbInvalidInput
      | Some i \<Rightarrow> Inr (filter (\<lambda>l. dc_id_compra l = i) (Detalles_Compra d), d))"

text \<open>
  The \<^verbatim>\<open>DO UPDATE SET\<close> of the receipt:
  \<^verbatim>\<open>costo_promedio = CASE WHEN (cantidad + EXCLUDED.cantidad) = 0 THEN 0 ELSE (...) / (...) END,
  cantidad = cantidad + EXCLUDED.cantidad\<close>
\<close>

definition merge_recepcion :: "inventario \<Rightarrow> real \<Rightarrow> real \<Rightarrow> inventario" where
  "merge_recepcion r cant costo =
     \<lparr>cantidad = cantidad r + cant,
      costo_promedio =
        (if cantidad r + cant = 0 then 0
         else ((cantidad r * costo_promedio r) + (cant * costo)) / (cantidad r + cant))\<rparr>"

definition upsert_recepcion_at :: "int \<times> int \<Rightarrow> real \<Rightarrow> real \<Rightarrow> db \<Rightarrow> error + unit \<times> db" where
  "upsert_recepcion_at k cant costo d =
     (case Inventario d k of
        None \<Rightarrow> Inr ((), d\<lparr>Inventario := (Inventario d)(k \<mapsto> \<lparr>cantidad = cant, costo_promedio = costo\<rparr>)\<rparr>)
      | Some r \<Rightarrow> Inr ((), d\<lparr>Inventario := (Inventario d)(k \<mapsto> merge_recepcion r cant costo)\<rparr>))"

text \<open>\<^verbatim>\<open>item.moneda === '$' ? item.costo_unitario * exchangeRate : item.costo_unitario\<close>:
  the product is JavaScript's.\<close>

definition receivedCostInBaseCurrency :: "env \<Rightarrow> real \<Rightarrow> detalle_compra \<Rightarrow> real" where
  "receivedCostInBaseCurrency env rate item =
     (if dc_moneda item = Some ''$'' then js_times env (dc_costo_unitario item) rate
      else dc_costo_unitario item)"

text \<open>The loop over the lines. A comparison with 0 (here \<^verbatim>\<open>item.cantidad <= 0\<close>) is taken
  on the value itself: the conversion to a double keeps the sign.\<close>

fun receive_items :: "env \<Rightarrow> int \<Rightarrow> real \<Rightarrow> detalle_compra list \<Rightarrow> conn \<Rightarrow> (error + unit) \<times> conn" where
  "receive_items env branchId rate [] c = (Inr (), c)"
| "receive_items env branchId rate (item # rest) c =
     (if dc_cantidad item \<le> 0 then receive_items env branchId rate rest c
      else
        case queryObject (upsert_recepcion_at (dc_id_producto item, branchId) (dc_cantidad item)
                            (receivedCostInBaseCurrency env rate item)) c of
          (Inl e, c') \<Rightarrow> (Inl e, c')
        | (Inr u, c') \<Rightarrow> receive_items env branchId rate rest c')"

text \<open>\<^verbatim>\<open>UPDATE "Compras" SET "estado" = 'Confirmado' WHERE "id" = $1\<close>\<close>

definition update_compra_confirmado :: "env \<Rightarrow> jsval \<Rightarrow> db \<Rightarrow> error + unit \<times> db" where
  "update_compra_confirmado env purchase_id d =
     (case to_bigint env purchase_id of
        None \<Rightarrow> Inl DbInvalidInput
      | Some i \<Rightarrow>
          (case Compras d i of
             None \<Rightarrow> Inr ((), d)
           | Some r \<Rightarrow> Inr ((), d\<lparr>Compras := (Compras d)(i \<mapsto> r\<lparr>c_estado := Some ''Confirmado''\<rparr>)\<rparr>)))"

definition receive_purchase_stock_try :: "env \<Rightarrow> jsval option \<Rightarrow> db \<Rightarrow> (error + unit) \<times> conn option" where
  "receive_purchase_stock_try env bdy d =
     (case bdy of
        None \<Rightarrow> (Inl SyntaxError, None)
      | Some b \<Rightarrow>
          if nullish b then (Inl TypeError, None)
          else
            let purchase_id = js_prop b ''purchase_id'' in
              if \<not> truthy purchase_id then (Inl CompraIdObligatorio, None)
              else
                (case queryObject (select_compra_for_update env purchase_id) (sql_begin (connect d)) of
                   (Inl e, c1) \<Rightarrow> (Inl e, Some c1)
                 | (Inr rows, c1) \<Rightarrow>
                     (case rows of
                        [] \<Rightarrow> (Inl (CompraNoEncontrada purchase_id), Some c1)
                      | purchase # others \<Rightarrow>
                          if c_estado purchase \<noteq> Some ''Pendiente''
                          then (Inl (CompraYaEnEstado (c_estado purchase)), Some c1)
                          else
                            (case queryObject (select_detalles_compra env purchase_id) c1 of
                               (Inl e, c2) \<Rightarrow> (Inl e, Some c2)
                             | (Inr items, c2) \<Rightarrow>
                                 if length items = 0 then (Inl CompraSinProductos, Some c2)
                                 else
                                   (case receive_items env (c_id_sucursal purchase) (exchangeRate purchase) items c2 of
                                      (Inl e, c3) \<Rightarrow> (Inl e, Some c3)
                                    | (Inr u, c3) \<Rightarrow>
                                        (case queryObject (update_compra_confirmado env purchase_id) c3 of
                                           (Inl e, c4) \<Rightarrow> (Inl e, Some c4)
                                         | (Inr u', c4) \<Rightarrow> (Inr (), Some (sql_commit c4))))))))"

text \<open>
  In this handler and the next the connection is taken inside the \<^verbatim>\<open>try\<close> block, after
  the validation: the \<^verbatim>\<open>catch\<close> block rolls back only \<^verbatim>\<open>if (connection)\<close>, and answers 400.
\<close>

definition receive_purchase_stock :: "env \<Rightarrow> request \<Rightarrow> db \<Rightarrow> response \<times> db" where
  "receive_purchase_stock env req d =
     (if http_method req = ''OPTIONS'' then (\<lparr>status = 200, payload = Preflight\<rparr>, d)
      else if \<not> pool_ok env then (\<lparr>status = 500, payload = ServerConfigurationError\<rparr>, d)
      else
        case receive_purchase_stock_try env (body req) d of
          (Inr u, Some c) \<Rightarrow> (\<lparr>status = 200, payload = StockActualizado\<rparr>, current c)
        | (Inr u, None) \<Rightarrow> (\<lparr>status = 200, payload = StockActualizado\<rparr>, d)
        | (Inl e, Some c) \<Rightarrow> (\<lparr>status = 400, payload = Msg e\<rparr>, current (sql_rollback c))
        | (Inl e, None) \<Rightarrow> (\<lparr>status = 400, payload = Msg e\<rparr>, d))"

subsection \<open>registrar-pago-compra\<close>

text \<open>\<^verbatim>\<open>INSERT INTO "Pagos_Compra" ("id_compra", "monto", "fecha_pago", "metodo_pago", "notas")\<close>;
  with the foreign key declared, a payment for a purchase that does not exist is rejected.\<close>

definition insert_pago_compra :: "env \<Rightarrow> jsval \<Rightarrow> real \<Rightarrow> jsval \<Rightarrow> jsval \<Rightarrow> jsval \<Rightarrow> db \<Rightarrow> error + unit \<times> db" where
  "insert_pago_compra env purchaseId amount paymentDate method notes d =
     (case to_bigint env purchaseId of
        None \<Rightarrow> Inl DbInvalidInput
      | Some i \<Rightarrow>
          if fk_pagos_compra env \<and> Compras d i = None then Inl DbForeignKeyViolation
          else Inr ((), d\<lparr>Pagos_Compra := Pagos_Compra d @
                      [\<lparr>p_id_compra = i, p_monto = amount, p_fecha_pago = to_text env paymentDate,
                        p_metodo_pago = to_text env method, p_notas = to_text env notes\<rparr>]\<rparr>))"

text \<open>
  \<^verbatim>\<open>CASE WHEN d.moneda = '$' THEN d.cantidad * d.costo_unitario * COALESCE(c.tipo_cambio, 1.0)
  ELSE d.cantidad * d.costo_unitario END\<close>
\<close>

definition line_total :: "real option \<Rightarrow> detalle_compra \<Rightarrow> real" where
  "line_total tipo_cambio l =
     (if dc_moneda l = Some ''$''
      then dc_cantidad l * dc_costo_unitario l * (case tipo_cambio of None \<Rightarrow> 1 | Some x \<Rightarrow> x)
      else dc_cantidad l * dc_costo_unitario l)"

text \<open>
  \<^verbatim>\<open>COALESCE(SUM(...), 0.0) FROM "Compras" c LEFT JOIN "Detalles_Compra" d ON c.id = d.id_compra
  WHERE c.id = $1\<close>: without the purchase there is no row to sum, and a purchase without
  lines gives one row of NULLs; both sum to NULL, which COALESCE turns into 0.
\<close>

definition calculated_total :: "db \<Rightarrow> int \<Rightarrow> real" where
  "calculated_total d i =
     (case Compras d i of
        None \<Rightarrow> 0
      | Some r \<Rightarrow> sum_list (map (line_total (c_tipo_cambio r))
                               (filter (\<lambda>l. dc_id_compra l = i) (Detalles_Compra d))))"

text \<open>\<^verbatim>\<open>SELECT COALESCE(SUM(p.monto), 0.0) FROM "Pagos_Compra" p WHERE p.id_compra = $1\<close>\<close>

definition total_paid :: "db \<Rightarrow> int \<Rightarrow> real" where
  "total_paid d i = sum_list (map p_monto (filter (\<lambda>p. p_id_compra p = i) (Pagos_Compra d)))"

text \<open>The outer \<^verbatim>\<open>SELECT\<close> has two scalar subqueries and no \<^verbatim>\<open>FROM\<close>: its result is one
  row.\<close>

definition select_totals :: "env \<Rightarrow> jsval \<Rightarrow> db \<Rightarrow> error + (real \<times> real) list \<times> db" where
  "select_totals env purchaseId d =
     (case to_bigint env purchaseId of
        None \<Rightarrow> Inl DbInvalidInput
      | Some i \<Rightarrow> Inr ([(calculated_total d i, total_paid d i)], d))"

text \<open>
  \<^verbatim>\<open>if (total_paid >= monto_total_calculado - 0.001) ... else if (total_paid > 0) ...\<close>:
  the subtraction is JavaScript's, and the first comparison is between the numbers that
  the two sides are in JavaScript.
\<close>

definition newStatus :: "env \<Rightarrow> real \<Rightarrow> real \<Rightarrow> string" where
  "newStatus env monto_total_calculado paid =
     (if js_number env paid \<ge> js_minus env monto_total_calculado 0.001 then ''Pagado''
      else if paid > 0 then ''Parcialmente Pagado''
      else ''Pago Pendiente'')"

text \<open>\<^verbatim>\<open>UPDATE "Compras" SET "estado_pago" = $1, "monto_total" = $2 WHERE "id" = $3\<close>\<close>

definition update_compra_pago :: "env \<Rightarrow> string \<Rightarrow> real \<Rightarrow> jsval \<Rightarrow> db \<Rightarrow> error + unit \<times> db" where
  "update_compra_pago env st monto purchaseId d =
     (case to_bigint env purchaseId of
        None \<Rightarrow> Inl DbInvalidInput
      | Some i \<Rightarrow>
          (case Compras d i of
             None \<Rightarrow> Inr ((), d)
           | Some r \<Rightarrow>
               Inr ((), d\<lparr>Compras := (Compras d)(i \<mapsto> r\<lparr>c_estado_pago := Some st, c_monto_total := monto\<rparr>)\<rparr>)))"

definition registrar_pago_compra_try :: "env \<Rightarrow> jsval option \<Rightarrow> db \<Rightarrow> (error + unit) \<times> conn option" where
  "registrar_pago_compra_try env bdy d =
     (case bdy of
        None \<Rightarrow> (Inl SyntaxError, None)
      | Some b \<Rightarrow>
          if nullish b then (Inl TypeError, None)
          else
            let purchaseId = js_prop b ''purchaseId'';
                amount = js_prop b ''amount'';
                paymentDate = js_prop b ''paymentDate'';
                method = js_prop b ''method'';
                notes = js_prop b ''notes''
            in
              (case num amount of
                 None \<Rightarrow> (Inl PagoDatosInvalidos, None)
               | Some monto \<Rightarrow>
                   if \<not> truthy purchaseId \<or> monto \<le> 0 \<or> \<not> truthy paymentDate \<or> \<not> truthy method
                   then (Inl PagoDatosInvalidos, None)
                   else
                     (case queryObject (insert_pago_compra env purchaseId monto paymentDate method notes)
                             (sql_begin (connect d)) of
                        (Inl e, c1) \<Rightarrow> (Inl e, Some c1)
                      | (Inr u, c1) \<Rightarrow>
                          (case queryObject (select_totals env purchaseId) c1 of
                             (Inl e, c2) \<Rightarrow> (Inl e, Some c2)
                           | (Inr rows, c2) \<Rightarrow>
                               (case rows of
                                  [] \<Rightarrow> (Inl (PagoCompraNoEncontrada purchaseId), Some c2)
                                | row # others \<Rightarrow>
                                    (case queryObject (update_compra_pago env (newStatus env (fst row) (snd row))
                                                         (fst row) purchaseId) c2 of
                                       (Inl e, c3) \<Rightarrow> (Inl e, Some c3)
                                     | (Inr u', c3) \<Rightarrow> (Inr (), Some (sql_commit c3))))))))"

definition registrar_pago_compra :: "env \<Rightarrow> request \<Rightarrow> db \<Rightarrow> response \<times> db" where
  "registrar_pago_compra env req d =
     (if http_method req = ''OPTIONS'' then (\<lparr>status = 200, payload = Preflight\<rparr>, d)
      else if \<not> pool_ok env then (\<lparr>status = 500, payload = ServerConfigurationError\<rparr>, d)
      else
        case registrar_pago_compra_try env (body req) d of
          (Inr u, Some c) \<Rightarrow> (\<lparr>status = 200, payload = PagoRegistrado\<rparr>, current c)
        | (Inr u, None) \<Rightarrow> (\<lparr>status = 200, payload = PagoRegistrado\<rparr>, d)
        | (Inl e, Some c) \<Rightarrow> (\<lparr>status = 400, payload = Msg e\<rparr>, current (sql_rollback c))
        | (Inl e, None) \<Rightarrow> (\<lparr>status = 400, payload = Msg e\<rparr>, d))"

subsection \<open>A concrete environment and concrete requests\<close>

text \<open>An environment in which a JSON number with an integral value is an id, a JSON
  string is a text, ids come back as numbers and the arithmetic is exact, used to run the
  handlers on concrete inputs.\<close>

definition num_bigint :: "jsval \<Rightarrow> int option" where
  "num_bigint v = (case v of JNum r \<Rightarrow> if of_int \<lfloor>r\<rfloor> = r then Some \<lfloor>r\<rfloor> else None | _ \<Rightarrow> None)"

definition str_text :: "jsval \<Rightarrow> string option" where
  "str_text v = (case v of JStr s \<Rightarrow> Some s | _ \<Rightarrow> None)"

definition env0 :: env where
  "env0 = \<lparr>pool_ok = True, to_bigint = num_bigint, to_text = str_text, venta_id = 1, compra_id = 1,
            now = 0, default_tipo_cambio = None, default_estado_pago = None,
            default_moneda = None, fk_pagos_compra = False, compras_estado_not_null = False,
            compras_id_bigint = False, js_number = (\<lambda>x. x), js_minus = (\<lambda>a b. a - b),
            js_times = (\<lambda>a b. a * b)\<rparr>"

definition db_empty :: db where
  "db_empty = \<lparr>Ventas = Map.empty, Detalles_Venta = [], Inventario = Map.empty,
                Productos = Map.empty, Compras = Map.empty, Detalles_Compra = [],
                Pagos_Compra = []\<rparr>"

definition post :: "jsval \<Rightarrow> request" where
  "post b = \<lparr>http_method = ''POST'', body = Some b\<rparr>"

text \<open>A database with one pending purchase of two lines, 10 units at 3 and 10 units at
  1 dollar with the exchange rate 7, and a payment request for a purchase.\<close>

definition db_compra :: db where
  "db_compra = db_empty\<lparr>
     Compras := [1 \<mapsto> \<lparr>c_id_proveedor = Some ''prov'', c_id_sucursal = 2, c_monto_total = 0,
                       c_estado = Some ''Pendiente'', c_fecha_compra = 0, c_tipo_cambio = Some 7,
                       c_estado_pago = None\<rparr>],
     Detalles_Compra :=
       [\<lparr>dc_id_compra = 1, dc_id_producto = 7, dc_cantidad = 10, dc_costo_unitario = 3,
         dc_moneda = Some ''Bs.''\<rparr>,
        \<lparr>dc_id_compra = 1, dc_id_producto = 8, dc_cantidad = 10, dc_costo_unitario = 1,
         dc_moneda = Some ''$''\<rparr>]\<rparr>"

definition pago_req :: "real \<Rightarrow> real \<Rightarrow> request" where
  "pago_req i m = post (JObj [(''purchaseId'', JNum i), (''amount'', JNum m),
                              (''paymentDate'', JStr ''2024-05-01''), (''method'', JStr ''Efectivo'')])"

text \<open>Requests for the other handlers: a receipt, a sale with given lines (each line
  at the price 10), a purchase with given lines (each line at the cost 4), and a purchase
  whose body has no \<^verbatim>\<open>estado\<close>; and a database with one product, stocked in branch 2.\<close>

definition recibir_req :: "real \<Rightarrow> request" where
  "recibir_req i = post (JObj [(''purchase_id'', JNum i)])"

definition db_stock :: "real \<Rightarrow> db" where
  "db_stock n = db_empty\<lparr>Inventario := [(7, 2) \<mapsto> \<lparr>cantidad = n, costo_promedio = 4\<rparr>],
                          Productos := [7 \<mapsto> ''Martillo'']\<rparr>"

definition sale_line :: "real \<Rightarrow> real \<Rightarrow> jsval" where
  "sale_line p q = JObj [(''id_producto'', JNum p), (''cantidad'', JNum q), (''precio_unitario'', JNum 10)]"

definition sale_body :: "jsval list \<Rightarrow> jsval" where
  "sale_body items = JObj [(''id_sucursal'', JNum 2), (''id_usuario'', JStr ''u1''),
                           (''monto_total'', JNum 30), (''metodo_pago'', JStr ''Efectivo''),
                           (''items'', JArr items)]"

definition compra_line :: "real \<Rightarrow> real \<Rightarrow> jsval" where
  "compra_line p q = JObj [(''id_producto'', JNum p), (''cantidad'', JNum q), (''costo_unitario'', JNum 4)]"

definition compra_body :: "jsval list \<Rightarrow> jsval" where
  "compra_body items = JObj [(''id_proveedor'', JStr ''prov''), (''id_sucursal'', JNum 2),
                             (''monto_total'', JNum 40), (''estado'', JStr ''Pendiente''),
                             (''items'', JArr items)]"

definition compra_sin_estado :: jsval where
  "compra_sin_estado = JObj [(''id_proveedor'', JStr ''prov''), (''id_sucursal'', JNum 2),
                             (''monto_total'', JNum 40),
                             (''items'', JArr [JObj [(''id_producto'', JNum 7), (''cantidad'', JNum 10),
                                                     (''costo_unitario'', JNum 4)]])]"

subsection \<open>Notions used to state the properties\<close>







text \<open>The invariant of the inventory: no row has a negative quantity.\<close>

definition inv_nonneg :: "db \<Rightarrow> bool" where
  "inv_nonneg d = (\<forall>k r. Inventario d k = Some r \<longrightarrow> 0 \<le> cantidad r)"

text \<open>What every statement of create-sale keeps: the invariant, the set of inventory
  rows, and the products.\<close>

definition inv_kept :: "db \<Rightarrow> db \<Rightarrow> bool" where
  "inv_kept d d' =
     ((inv_nonneg d \<longrightarrow> inv_nonneg d') \<and> dom (Inventario d') = dom (Inventario d)
      \<and> Productos d' = Productos d)"

text \<open>An item of a sale whose product and branch have no inventory row in a state.\<close>

definition sin_inventario :: "env \<Rightarrow> jsval \<Rightarrow> db \<Rightarrow> jsval \<Rightarrow> bool" where
  "sin_inventario env id_sucursal d item =
     (\<forall>p ip ib. num (js_prop item ''id_producto'') = Some p \<and> to_bigint env (JNum p) = Some ip
         \<and> to_bigint env id_sucursal = Some ib \<longrightarrow> Inventario d (ip, ib) = None)"



text \<open>
  The weighted-average merge as the specification words it: a batch of \<open>qty\<close> units at
  \<open>unit_cost\<close> merged into a row gives the quantity \<open>old_qty + qty\<close> and the cost
  \<open>(old_qty * old_cost + qty * unit_cost) / (old_qty + qty)\<close>, the cost being 0 when
  \<open>old_qty + qty = 0\<close>; merged into no row it gives the row of the batch. And the merge
  of a sequence of batches, one after the other.
\<close>

definition merge_spec :: "inventario option \<Rightarrow> real \<times> real \<Rightarrow> inventario option" where
  "merge_spec row lote =
     (case row of
        None \<Rightarrow> Some \<lparr>cantidad = fst lote, costo_promedio = snd lote\<rparr>
      | Some r \<Rightarrow>
          Some \<lparr>cantidad = cantidad r + fst lote,
                costo_promedio =
                  (if cantidad r + fst lote = 0 then 0
                   else (cantidad r * costo_promedio r + fst lote * snd lote) / (cantidad r + fst lote))\<rparr>)"

definition merge_all_spec :: "inventario option \<Rightarrow> (real \<times> real) list \<Rightarrow> inventario option" where
  "merge_all_spec row lotes = foldl merge_spec row lotes"

text \<open>The batches that the lines of a purchase bring to a product when the purchase is
  received: the lines of the product with a positive quantity, each with its quantity and
  its cost in the base currency.\<close>

definition lotes_recepcion :: "env \<Rightarrow> real \<Rightarrow> int \<Rightarrow> detalle_compra list \<Rightarrow> (real \<times> real) list" where
  "lotes_recepcion env rate ip ls =
     map (\<lambda>l. (dc_cantidad l, receivedCostInBaseCurrency env rate l))
         (filter (\<lambda>l. dc_id_producto l = ip \<and> 0 < dc_cantidad l) ls)"

text \<open>The database \<open>db_compra\<close> with 5 units of product 7 at the cost 10 already in branch 2.\<close>

definition db_compra_stock :: db where
  "db_compra_stock = db_compra\<lparr>Inventario := [(7, 2) \<mapsto> \<lparr>cantidad = 5, costo_promedio = 10\<rparr>]\<rparr>"

text \<open>A purchase whose \<^verbatim>\<open>id_sucursal\<close> is a text that is no id, and the database that
  the purchase of 10 units of product 7 at the cost 4, with a given state, leaves when it
  is committed on the empty database.\<close>

definition compra_sucursal_texto :: jsval where
  "compra_sucursal_texto = JObj [(''id_proveedor'', JStr ''prov''), (''id_sucursal'', JStr ''abc''),
                                 (''monto_total'', JNum 40), (''estado'', JStr ''Pendiente''),
                                 (''items'', JArr [JObj [(''id_producto'', JNum 7), (''cantidad'', JNum 10),
                                                         (''costo_unitario'', JNum 4)]])]"

definition db_comprado :: "string option \<Rightarrow> db" where
  "db_comprado estado = db_empty\<lparr>
     Inventario := [(7, 2) \<mapsto> \<lparr>cantidad = 10, costo_promedio = 4\<rparr>],
     Compras := [1 \<mapsto> \<lparr>c_id_proveedor = Some ''prov'', c_id_sucursal = 2, c_monto_total = 40,
                       c_estado = estado, c_fecha_compra = 0, c_tipo_cambio = None,
                       c_estado_pago = None\<rparr>],
     Detalles_Compra := [\<lparr>dc_id_compra = 1, dc_id_producto = 7, dc_cantidad = 10,
                          dc_costo_unitario = 4, dc_moneda = None\<rparr>]\<rparr>"









section \<open>Properties\<close>

lemmas run_simps = post_def env0_def db_empty_def num_bigint_def str_text_def
  queryObject_def connect_def sql_begin_def sql_commit_def sql_rollback_def

subsection \<open>registrar-pago-compra\<close>

lemmas pago_simps = registrar_pago_compra_def registrar_pago_compra_try_def
  insert_pago_compra_def select_totals_def update_compra_pago_def calculated_total_def
  total_paid_def line_total_def newStatus_def pago_req_def db_compra_def

lemma total_paid_append:
  "total_paid (d\<lparr>Pagos_Compra := Pagos_Compra d @ [p]\<rparr>) i =
     total_paid d i + (if p_id_compra p = i then p_monto p else 0)"
  by (simp add: total_paid_def)

lemma calculated_total_pagos:
  "calculated_total (d\<lparr>Pagos_Compra := ps\<rparr>) i = calculated_total d i"
  by (simp add: calculated_total_def split: option.splits)

text \<open>What a call that answers success has done.\<close>

lemma registrar_ok_inv:
  assumes "registrar_pago_compra env req d = (rsp, d')" and "payload rsp = PagoRegistrado"
  shows "\<exists>b m i. body req = Some b \<and> num (js_prop b ''amount'') = Some m \<and> 0 < m
           \<and> to_bigint env (js_prop b ''purchaseId'') = Some i
           \<and> Pagos_Compra d' = Pagos_Compra d @
                [\<lparr>p_id_compra = i, p_monto = m,
                  p_fecha_pago = to_text env (js_prop b ''paymentDate''),
                  p_metodo_pago = to_text env (js_prop b ''method''),
                  p_notas = to_text env (js_prop b ''notes'')\<rparr>]
           \<and> Detalles_Compra d' = Detalles_Compra d
           \<and> Compras d' =
               (case Compras d i of
                  None \<Rightarrow> Compras d
                | Some r \<Rightarrow> (Compras d)(i \<mapsto>
                     r\<lparr>c_estado_pago := Some (newStatus env (calculated_total d i) (total_paid d i + m)),
                       c_monto_total := calculated_total d i\<rparr>))"
  using assms
  unfolding registrar_pago_compra_def registrar_pago_compra_try_def Let_def
  apply (simp split: if_splits option.splits sum.splits prod.splits list.splits)
  apply (auto simp: queryObject_def insert_pago_compra_def select_totals_def update_compra_pago_def
      sql_begin_def sql_commit_def connect_def total_paid_append calculated_total_pagos
      split: if_splits option.splits sum.splits prod.splits list.splits)
  done







text \<open>
  C4. A successful registrar-pago-compra call for an existing purchase sets
  \<^verbatim>\<open>monto_total\<close> to the sum over the purchase's line items of quantity times unit cost,
  the lines in \<^verbatim>\<open>'$'\<close> multiplied by the purchase's exchange rate (1 when it is NULL).
  The sum is over the line-item rows and the exchange rate as they are when the call is
  made, which the call leaves as they are; neither the request nor the total stored
  before enters it.
\<close>

theorem registrar_pago_monto_total:
  assumes "registrar_pago_compra env req d = (rsp, d')" and "payload rsp = PagoRegistrado"
    and "body req = Some b" and "to_bigint env (js_prop b ''purchaseId'') = Some i"
    and "Compras d i = Some r"
  shows "\<exists>r'. Compras d' i = Some r'
           \<and> c_monto_total r' =
               (\<Sum>l\<leftarrow>filter (\<lambda>l. dc_id_compra l = i) (Detalles_Compra d).
                  dc_cantidad l * dc_costo_unitario l *
                  (if dc_moneda l = Some ''$''
                   then (case c_tipo_cambio r of None \<Rightarrow> 1 | Some x \<Rightarrow> x) else 1))
           \<and> c_tipo_cambio r' = c_tipo_cambio r \<and> Detalles_Compra d' = Detalles_Compra d"
proof -
  obtain m where ds: "Detalles_Compra d' = Detalles_Compra d"
    and cs: "Compras d' = (Compras d)(i \<mapsto>
               r\<lparr>c_estado_pago := Some (newStatus env (calculated_total d i) (total_paid d i + m)),
                 c_monto_total := calculated_total d i\<rparr>)"
    using registrar_ok_inv[OF assms(1,2)] assms(3,4,5) by auto
  have "calculated_total d i =
          (\<Sum>l\<leftarrow>filter (\<lambda>l. dc_id_compra l = i) (Detalles_Compra d).
                  dc_cantidad l * dc_costo_unitario l *
                  (if dc_moneda l = Some ''$''
                   then (case c_tipo_cambio r of None \<Rightarrow> 1 | Some x \<Rightarrow> x) else 1))"
    using assms(5) unfolding calculated_total_def line_total_def
    by (auto intro!: arg_cong[where f = sum_list] split: option.splits)
  then show ?thesis using cs ds by simp
qed

theorem registrar_pago_monto_total_witness:
  "map_option c_monto_total (Compras (snd (registrar_pago_compra env0 (pago_req 1 40) db_compra)) 1)
     = Some (10 * 3 * 1 + 10 * 1 * 7)"
proof -
  let ?out = "registrar_pago_compra env0 (pago_req 1 40) db_compra"
  let ?b = "JObj [(''purchaseId'', JNum 1), (''amount'', JNum 40),
                  (''paymentDate'', JStr ''2024-05-01''), (''method'', JStr ''Efectivo'')]"
  let ?r = "\<lparr>c_id_proveedor = Some ''prov'', c_id_sucursal = 2,
            c_monto_total = 0, c_estado = Some ''Pendiente'', c_fecha_compra = 0,
            c_tipo_cambio = Some 7, c_estado_pago = None\<rparr>"
  have h1: "registrar_pago_compra env0 (pago_req 1 40) db_compra = (fst ?out, snd ?out)" by simp
  have h2: "payload (fst ?out) = PagoRegistrado" by (simp add: pago_simps run_simps)
  have h3: "body (pago_req 1 40) = Some ?b" by (simp add: pago_req_def post_def)
  have h4: "to_bigint env0 (js_prop ?b ''purchaseId'') = Some 1" by (simp add: run_simps)
  have h5: "Compras db_compra 1 = Some ?r" by (simp add: db_compra_def db_empty_def)
  have ls: "filter (\<lambda>l. dc_id_compra l = 1) (Detalles_Compra db_compra) = Detalles_Compra db_compra"
    by (simp add: db_compra_def db_empty_def)
  show ?thesis
    using registrar_pago_monto_total[OF h1 h2 h3 h4 h5]
    by (auto simp: ls) (simp add: db_compra_def db_empty_def)
qed

text \<open>
  C7. The branch of registrar-pago-compra that throws
  \<^verbatim>\<open>No se encontro la compra con ID ...\<close> is never taken: the totals query always
  returns one row. For a purchase id that matches no purchase the call either commits the
  payment and answers 200, or, where the foreign key is declared, is rejected by the
  INSERT with the database's message.
\<close>

theorem registrar_pago_compra_unknown_purchase:
  "(\<forall>env req d x. payload (fst (registrar_pago_compra env req d)) \<noteq> Msg (PagoCompraNoEncontrada x))
   \<and> registrar_pago_compra env0 (pago_req 99 10) db_empty =
       (\<lparr>status = 200, payload = PagoRegistrado\<rparr>,
        db_empty\<lparr>Pagos_Compra := [\<lparr>p_id_compra = 99, p_monto = 10, p_fecha_pago = Some ''2024-05-01'',
                                    p_metodo_pago = Some ''Efectivo'', p_notas = None\<rparr>]\<rparr>)
   \<and> registrar_pago_compra (env0\<lparr>fk_pagos_compra := True\<rparr>) (pago_req 99 10) db_empty =
       (\<lparr>status = 400, payload = Msg DbForeignKeyViolation\<rparr>, db_empty)"
proof (intro conjI allI)
  fix env req d x
  show "payload (fst (registrar_pago_compra env req d)) \<noteq> Msg (PagoCompraNoEncontrada x)"
    unfolding registrar_pago_compra_def registrar_pago_compra_try_def Let_def
    by (auto simp: queryObject_def insert_pago_compra_def select_totals_def update_compra_pago_def
        split: if_splits option.splits sum.splits prod.splits list.splits)
next
  show "registrar_pago_compra env0 (pago_req 99 10) db_empty =
       (\<lparr>status = 200, payload = PagoRegistrado\<rparr>,
        db_empty\<lparr>Pagos_Compra := [\<lparr>p_id_compra = 99, p_monto = 10, p_fecha_pago = Some ''2024-05-01'',
                                    p_metodo_pago = Some ''Efectivo'', p_notas = None\<rparr>]\<rparr>)"
    by (simp add: pago_simps run_simps)
next
  show "registrar_pago_compra (env0\<lparr>fk_pagos_compra := True\<rparr>) (pago_req 99 10) db_empty =
       (\<lparr>status = 400, payload = Msg DbForeignKeyViolation\<rparr>, db_empty)"
    by (simp add: pago_simps run_simps)
qed

subsection \<open>receive-purchase-stock\<close>

text \<open>The loop over the lines never throws; it changes the inventory rows of the branch
  and nothing else, and each row by the merge of the batches of its product.\<close>

lemma queryObject_upsert_recepcion:
  "queryObject (upsert_recepcion_at k q co) c =
     (Inr (), c\<lparr>current := (current c)\<lparr>Inventario := (Inventario (current c))(k := merge_spec (Inventario (current c) k) (q, co))\<rparr>\<rparr>)"
  by (cases "Inventario (current c) k")
     (simp_all add: queryObject_def upsert_recepcion_at_def merge_spec_def merge_recepcion_def)

lemma receive_items_effect:
  "\<exists>c'. receive_items env br rate ls c = (Inr (), c') \<and> snapshot c' = snapshot c
         \<and> Compras (current c') = Compras (current c)
         \<and> (\<forall>ip. Inventario (current c') (ip, br) =
                   merge_all_spec (Inventario (current c) (ip, br)) (lotes_recepcion env rate ip ls))
         \<and> (\<forall>k. snd k \<noteq> br \<longrightarrow> Inventario (current c') k = Inventario (current c) k)"
proof (induction ls arbitrary: c)
  case Nil
  then show ?case by (simp add: merge_all_spec_def lotes_recepcion_def)
next
  case (Cons l ls)
  show ?case
  proof (cases "dc_cantidad l \<le> 0")
    case True
    then have "lotes_recepcion env rate ip (l # ls) = lotes_recepcion env rate ip ls" for ip
      by (simp add: lotes_recepcion_def)
    then show ?thesis using Cons.IH[of c] True by simp
  next
    case False
    let ?k = "(dc_id_producto l, br)"
    let ?lote = "(dc_cantidad l, receivedCostInBaseCurrency env rate l)"
    let ?c1 = "c\<lparr>current := (current c)\<lparr>Inventario := (Inventario (current c))(?k := merge_spec (Inventario (current c) ?k) ?lote)\<rparr>\<rparr>"
    have q: "queryObject (upsert_recepcion_at ?k (dc_cantidad l) (receivedCostInBaseCurrency env rate l)) c
               = (Inr (), ?c1)"
      by (rule queryObject_upsert_recepcion)
    from Cons.IH[of ?c1] obtain c' where r: "receive_items env br rate ls ?c1 = (Inr (), c')"
      and s: "snapshot c' = snapshot ?c1" and k: "Compras (current c') = Compras (current ?c1)"
      and i: "\<forall>ip. Inventario (current c') (ip, br) =
                   merge_all_spec (Inventario (current ?c1) (ip, br)) (lotes_recepcion env rate ip ls)"
      and o: "\<forall>k. snd k \<noteq> br \<longrightarrow> Inventario (current c') k = Inventario (current ?c1) k"
      by blast
    have run: "receive_items env br rate (l # ls) c = (Inr (), c')" using False q r by simp
    have inv: "Inventario (current c') (ip, br) =
                   merge_all_spec (Inventario (current c) (ip, br)) (lotes_recepcion env rate ip (l # ls))" for ip
    proof (cases "ip = dc_id_producto l")
      case True
      then have "lotes_recepcion env rate ip (l # ls) = ?lote # lotes_recepcion env rate ip ls"
        using False by (simp add: lotes_recepcion_def)
      then show ?thesis using i True by (simp add: merge_all_spec_def)
    next
      case False
      then have "lotes_recepcion env rate ip (l # ls) = lotes_recepcion env rate ip ls"
        by (simp add: lotes_recepcion_def)
      then show ?thesis using i False by simp
    qed
    have oth: "snd k \<noteq> br \<longrightarrow> Inventario (current c') k = Inventario (current c) k" for k
      using o by (cases k) auto
    show ?thesis using run s k inv oth by auto
  qed
qed

lemma receive_try_cases:
  assumes "body req = Some b" and "\<not> nullish b" and "truthy (js_prop b ''purchase_id'')"
    and "to_bigint env (js_prop b ''purchase_id'') = Some i"
  shows "Compras d i = None \<Longrightarrow>
           \<exists>c. receive_purchase_stock_try env (body req) d = (Inl (CompraNoEncontrada (js_prop b ''purchase_id'')), Some c)
              \<and> snapshot c = Some d"
    and "Compras d i = Some r \<Longrightarrow> c_estado r \<noteq> Some ''Pendiente'' \<Longrightarrow>
           \<exists>c. receive_purchase_stock_try env (body req) d = (Inl (CompraYaEnEstado (c_estado r)), Some c)
              \<and> snapshot c = Some d"
  using assms
  unfolding receive_purchase_stock_try_def Let_def
  by (auto simp: queryObject_def select_compra_for_update_def sql_begin_def connect_def)

text \<open>What a call that answers success has done.\<close>

lemma receive_ok_inv:
  assumes "receive_purchase_stock env req d = (rsp, d')" and "payload rsp = StockActualizado"
  shows "\<exists>b i r. http_method req \<noteq> ''OPTIONS'' \<and> pool_ok env \<and> body req = Some b \<and> \<not> nullish b
           \<and> truthy (js_prop b ''purchase_id'')
           \<and> to_bigint env (js_prop b ''purchase_id'') = Some i \<and> Compras d i = Some r
           \<and> c_estado r = Some ''Pendiente''
           \<and> Compras d' = (Compras d)(i \<mapsto> r\<lparr>c_estado := Some ''Confirmado''\<rparr>)
           \<and> (\<forall>ip. Inventario d' (ip, c_id_sucursal r) =
                  merge_all_spec (Inventario d (ip, c_id_sucursal r))
                    (lotes_recepcion env (exchangeRate r) ip
                       (filter (\<lambda>l. dc_id_compra l = i) (Detalles_Compra d))))
           \<and> (\<forall>k. snd k \<noteq> c_id_sucursal r \<longrightarrow> Inventario d' k = Inventario d k)"
proof -
  from assms have m: "http_method req \<noteq> ''OPTIONS''" and p: "pool_ok env"
    by (auto simp: receive_purchase_stock_def split: if_splits)
  from assms m p obtain c where t: "receive_purchase_stock_try env (body req) d = (Inr (), Some c)"
    and d': "d' = current c"
    unfolding receive_purchase_stock_def receive_purchase_stock_try_def Let_def
    by (auto split: if_splits option.splits sum.splits prod.splits list.splits)
  from t obtain b where b: "body req = Some b" "\<not> nullish b" "truthy (js_prop b ''purchase_id'')"
    unfolding receive_purchase_stock_try_def Let_def
    by (auto split: if_splits option.splits)
  from t b obtain i where i: "to_bigint env (js_prop b ''purchase_id'') = Some i"
    unfolding receive_purchase_stock_try_def Let_def
    by (auto simp: queryObject_def select_compra_for_update_def split: if_splits option.splits)
  from t b i obtain r where r: "Compras d i = Some r" "c_estado r = Some ''Pendiente''"
    unfolding receive_purchase_stock_try_def Let_def
    by (auto simp: queryObject_def select_compra_for_update_def sql_begin_def connect_def
        split: if_splits option.splits)
  let ?c1 = "\<lparr>snapshot = Some d, current = d\<rparr>"
  let ?items = "filter (\<lambda>l. dc_id_compra l = i) (Detalles_Compra d)"
  obtain c3 where c3: "receive_items env (c_id_sucursal r) (exchangeRate r) ?items ?c1 = (Inr (), c3)"
    and k3: "Compras (current c3) = Compras d"
    and i3: "\<forall>ip. Inventario (current c3) (ip, c_id_sucursal r) =
                   merge_all_spec (Inventario d (ip, c_id_sucursal r))
                     (lotes_recepcion env (exchangeRate r) ip ?items)"
    and o3: "\<forall>k. snd k \<noteq> c_id_sucursal r \<longrightarrow> Inventario (current c3) k = Inventario d k"
    using receive_items_effect[of env "c_id_sucursal r" "exchangeRate r" ?items ?c1] by auto
  from t b i r c3 k3 have fin: "current c = (current c3)\<lparr>Compras := (Compras d)(i \<mapsto> r\<lparr>c_estado := Some ''Confirmado''\<rparr>)\<rparr>"
    unfolding receive_purchase_stock_try_def Let_def
    by (auto simp: queryObject_def select_compra_for_update_def select_detalles_compra_def
        update_compra_confirmado_def sql_begin_def sql_commit_def connect_def
        split: if_splits)
  have "Compras d' = (Compras d)(i \<mapsto> r\<lparr>c_estado := Some ''Confirmado''\<rparr>)"
    using fin d' by simp
  moreover have "\<forall>ip. Inventario d' (ip, c_id_sucursal r) =
                  merge_all_spec (Inventario d (ip, c_id_sucursal r))
                    (lotes_recepcion env (exchangeRate r) ip ?items)"
    using fin d' i3 by simp
  moreover have "\<forall>k. snd k \<noteq> c_id_sucursal r \<longrightarrow> Inventario d' k = Inventario d k"
    using fin d' o3 by simp
  ultimately show ?thesis using m p b i r by blast
qed

text \<open>
  C6. receive-purchase-stock, called with a purchase id, fails with the not-found error
  naming the id when no purchase has it, and with the invalid-state error naming the
  current state when the purchase is not \<^verbatim>\<open>'Pendiente'\<close>; both leave the database as it
  was. A successful call sets the state to \<^verbatim>\<open>'Confirmado'\<close> and credits the inventory once:
  each row of the purchase's branch is the merge, into the row as it was, of the batches
  that the lines of the purchase bring to its product, and no other inventory row
  changes. After it every further call for the same purchase id fails with the
  invalid-state error naming \<^verbatim>\<open>'Confirmado'\<close> and changes nothing: the inventory keeps the
  one credit.
\<close>

theorem receive_purchase_stock_terminal:
  "(http_method req \<noteq> ''OPTIONS'' \<and> pool_ok env \<and> body req = Some b \<and> \<not> nullish b
      \<and> truthy (js_prop b ''purchase_id'') \<and> to_bigint env (js_prop b ''purchase_id'') = Some i
    \<longrightarrow> (Compras d i = None \<longrightarrow>
            receive_purchase_stock env req d =
              (\<lparr>status = 400, payload = Msg (CompraNoEncontrada (js_prop b ''purchase_id''))\<rparr>, d))
       \<and> (\<forall>r. Compras d i = Some r \<and> c_estado r \<noteq> Some ''Pendiente'' \<longrightarrow>
            receive_purchase_stock env req d =
              (\<lparr>status = 400, payload = Msg (CompraYaEnEstado (c_estado r))\<rparr>, d))
       \<and> (\<forall>req0 d0 rsp0. receive_purchase_stock env req0 d0 = (rsp0, d) \<and> payload rsp0 = StockActualizado
              \<and> (\<exists>b0. body req0 = Some b0 \<and> to_bigint env (js_prop b0 ''purchase_id'') = Some i) \<longrightarrow>
            (\<exists>r0. Compras d0 i = Some r0 \<and> c_estado r0 = Some ''Pendiente''
               \<and> Compras d = (Compras d0)(i \<mapsto> r0\<lparr>c_estado := Some ''Confirmado''\<rparr>)
               \<and> (\<forall>ip. Inventario d (ip, c_id_sucursal r0) =
                      merge_all_spec (Inventario d0 (ip, c_id_sucursal r0))
                        (lotes_recepcion env (exchangeRate r0) ip
                           (filter (\<lambda>l. dc_id_compra l = i) (Detalles_Compra d0))))
               \<and> (\<forall>k. snd k \<noteq> c_id_sucursal r0 \<longrightarrow> Inventario d k = Inventario d0 k))
            \<and> receive_purchase_stock env req d =
                (\<lparr>status = 400, payload = Msg (CompraYaEnEstado (Some ''Confirmado''))\<rparr>, d)))"
proof (intro impI conjI allI)
  assume a: "http_method req \<noteq> ''OPTIONS'' \<and> pool_ok env \<and> body req = Some b \<and> \<not> nullish b
      \<and> truthy (js_prop b ''purchase_id'') \<and> to_bigint env (js_prop b ''purchase_id'') = Some i"
  then have h: "body req = Some b" "\<not> nullish b" "truthy (js_prop b ''purchase_id'')"
    "to_bigint env (js_prop b ''purchase_id'') = Some i" by simp_all
  {
    assume "Compras d i = None"
    from receive_try_cases(1)[OF h this] a
    show "receive_purchase_stock env req d =
              (\<lparr>status = 400, payload = Msg (CompraNoEncontrada (js_prop b ''purchase_id''))\<rparr>, d)"
      by (auto simp: receive_purchase_stock_def sql_rollback_def)
  }
  have st: "receive_purchase_stock env req d =
              (\<lparr>status = 400, payload = Msg (CompraYaEnEstado (c_estado r))\<rparr>, d)"
    if "Compras d i = Some r \<and> c_estado r \<noteq> Some ''Pendiente''" for r
    using receive_try_cases(2)[OF h, of d r] that a
    by (auto simp: receive_purchase_stock_def sql_rollback_def)
  {
    fix r assume "Compras d i = Some r \<and> c_estado r \<noteq> Some ''Pendiente''"
    then show "receive_purchase_stock env req d =
              (\<lparr>status = 400, payload = Msg (CompraYaEnEstado (c_estado r))\<rparr>, d)"
      by (rule st)
  }
  {
    fix req0 d0 rsp0
    assume s: "receive_purchase_stock env req0 d0 = (rsp0, d) \<and> payload rsp0 = StockActualizado
              \<and> (\<exists>b0. body req0 = Some b0 \<and> to_bigint env (js_prop b0 ''purchase_id'') = Some i)"
    then obtain r0 where r0: "Compras d0 i = Some r0" "c_estado r0 = Some ''Pendiente''"
      "Compras d = (Compras d0)(i \<mapsto> r0\<lparr>c_estado := Some ''Confirmado''\<rparr>)"
      "\<forall>ip. Inventario d (ip, c_id_sucursal r0) =
                      merge_all_spec (Inventario d0 (ip, c_id_sucursal r0))
                        (lotes_recepcion env (exchangeRate r0) ip
                           (filter (\<lambda>l. dc_id_compra l = i) (Detalles_Compra d0)))"
      "\<forall>k. snd k \<noteq> c_id_sucursal r0 \<longrightarrow> Inventario d k = Inventario d0 k"
      using receive_ok_inv[of env req0 d0 rsp0 d] by auto
    then show "\<exists>r0. Compras d0 i = Some r0 \<and> c_estado r0 = Some ''Pendiente''
               \<and> Compras d = (Compras d0)(i \<mapsto> r0\<lparr>c_estado := Some ''Confirmado''\<rparr>)
               \<and> (\<forall>ip. Inventario d (ip, c_id_sucursal r0) =
                      merge_all_spec (Inventario d0 (ip, c_id_sucursal r0))
                        (lotes_recepcion env (exchangeRate r0) ip
                           (filter (\<lambda>l. dc_id_compra l = i) (Detalles_Compra d0))))
               \<and> (\<forall>k. snd k \<noteq> c_id_sucursal r0 \<longrightarrow> Inventario d k = Inventario d0 k)"
      by blast
    from r0 have c: "Compras d i = Some (r0\<lparr>c_estado := Some ''Confirmado''\<rparr>)" by simp
    from st[of "r0\<lparr>c_estado := Some ''Confirmado''\<rparr>"] c
    show "receive_purchase_stock env req d =
                (\<lparr>status = 400, payload = Msg (CompraYaEnEstado (Some ''Confirmado''))\<rparr>, d)"
      by simp
  }
qed

lemmas recibir_simps = receive_purchase_stock_def receive_purchase_stock_try_def
  select_compra_for_update_def select_detalles_compra_def upsert_recepcion_at_def
  merge_recepcion_def receivedCostInBaseCurrency_def exchangeRate_def update_compra_confirmado_def
  recibir_req_def db_compra_def db_compra_stock_def

text \<open>Purchase 1 is received once into a branch that holds 5 units of product 7 at 10:
  its 10 units at 3 make 15 units at 16/3, and its 10 units of product 8 at 1 dollar
  (rate 7) make a new row. The second call is refused and the rows stay. No purchase has
  the id 99.\<close>

theorem receive_purchase_stock_terminal_witness:
  "receive_purchase_stock env0 (recibir_req 99) db_compra_stock =
     (\<lparr>status = 400, payload = Msg (CompraNoEncontrada (JNum 99))\<rparr>, db_compra_stock)
   \<and> fst (receive_purchase_stock env0 (recibir_req 1) db_compra_stock) =
       \<lparr>status = 200, payload = StockActualizado\<rparr>
   \<and> Inventario (snd (receive_purchase_stock env0 (recibir_req 1) db_compra_stock)) (7, 2) =
       Some \<lparr>cantidad = 15, costo_promedio = 16 / 3\<rparr>
   \<and> Inventario (snd (receive_purchase_stock env0 (recibir_req 1) db_compra_stock)) (8, 2) =
       Some \<lparr>cantidad = 10, costo_promedio = 7\<rparr>
   \<and> receive_purchase_stock env0 (recibir_req 1)
        (snd (receive_purchase_stock env0 (recibir_req 1) db_compra_stock)) =
       (\<lparr>status = 400, payload = Msg (CompraYaEnEstado (Some ''Confirmado''))\<rparr>,
        snd (receive_purchase_stock env0 (recibir_req 1) db_compra_stock))"
proof -
  let ?d0 = "db_compra_stock"
  let ?d1 = "snd (receive_purchase_stock env0 (recibir_req 1) ?d0)"
  let ?r0 = "\<lparr>c_id_proveedor = Some ''prov'', c_id_sucursal = 2, c_monto_total = 0,
             c_estado = Some ''Pendiente'', c_fecha_compra = 0, c_tipo_cambio = Some 7,
             c_estado_pago = None\<rparr>"
  have h99: "http_method (recibir_req 99) \<noteq> ''OPTIONS'' \<and> pool_ok env0
      \<and> body (recibir_req 99) = Some (JObj [(''purchase_id'', JNum 99)])
      \<and> \<not> nullish (JObj [(''purchase_id'', JNum 99)])
      \<and> truthy (js_prop (JObj [(''purchase_id'', JNum 99)]) ''purchase_id'')
      \<and> to_bigint env0 (js_prop (JObj [(''purchase_id'', JNum 99)]) ''purchase_id'') = Some 99"
    by (simp add: recibir_req_def run_simps)
  have n99: "Compras ?d0 99 = None" by (simp add: db_compra_stock_def db_compra_def db_empty_def)
  have c1: "receive_purchase_stock env0 (recibir_req 99) ?d0 =
     (\<lparr>status = 400, payload = Msg (CompraNoEncontrada (JNum 99))\<rparr>, ?d0)"
    using receive_purchase_stock_terminal[THEN mp, OF h99, THEN conjunct1, THEN mp, OF n99]
    by simp
  have h1: "http_method (recibir_req 1) \<noteq> ''OPTIONS'' \<and> pool_ok env0
      \<and> body (recibir_req 1) = Some (JObj [(''purchase_id'', JNum 1)])
      \<and> \<not> nullish (JObj [(''purchase_id'', JNum 1)])
      \<and> truthy (js_prop (JObj [(''purchase_id'', JNum 1)]) ''purchase_id'')
      \<and> to_bigint env0 (js_prop (JObj [(''purchase_id'', JNum 1)]) ''purchase_id'') = Some 1"
    by (simp add: recibir_req_def run_simps)
  have c2: "fst (receive_purchase_stock env0 (recibir_req 1) ?d0) =
       \<lparr>status = 200, payload = StockActualizado\<rparr>"
    by (simp add: recibir_simps run_simps)
  have first: "receive_purchase_stock env0 (recibir_req 1) ?d0 =
        (fst (receive_purchase_stock env0 (recibir_req 1) ?d0), ?d1)
      \<and> payload (fst (receive_purchase_stock env0 (recibir_req 1) ?d0)) = StockActualizado
      \<and> (\<exists>b0. body (recibir_req 1) = Some b0 \<and> to_bigint env0 (js_prop b0 ''purchase_id'') = Some 1)"
    using c2 h1 by (auto simp: prod_eq_iff)
  note after = receive_purchase_stock_terminal[THEN mp, OF h1, THEN conjunct2, THEN conjunct2,
      rule_format, OF first]
  from after obtain r0 where r0: "Compras ?d0 1 = Some r0"
    and inv: "\<forall>ip. Inventario ?d1 (ip, c_id_sucursal r0) =
                merge_all_spec (Inventario ?d0 (ip, c_id_sucursal r0))
                  (lotes_recepcion env0 (exchangeRate r0) ip
                     (filter (\<lambda>l. dc_id_compra l = 1) (Detalles_Compra ?d0)))"
    by blast
  have "r0 = ?r0" using r0 by (simp add: db_compra_stock_def db_compra_def db_empty_def)
  with inv have inv2: "Inventario ?d1 (ip, 2) =
                merge_all_spec (Inventario ?d0 (ip, 2))
                  (lotes_recepcion env0 7 ip (filter (\<lambda>l. dc_id_compra l = 1) (Detalles_Compra ?d0)))" for ip
    by (simp add: exchangeRate_def)
  have c3: "Inventario ?d1 (7, 2) = Some \<lparr>cantidad = 15, costo_promedio = 16 / 3\<rparr>"
    using inv2[of 7]
    by (simp add: merge_all_spec_def merge_spec_def lotes_recepcion_def receivedCostInBaseCurrency_def
        db_compra_stock_def db_compra_def db_empty_def env0_def)
  have c4: "Inventario ?d1 (8, 2) = Some \<lparr>cantidad = 10, costo_promedio = 7\<rparr>"
    using inv2[of 8]
    by (simp add: merge_all_spec_def merge_spec_def lotes_recepcion_def receivedCostInBaseCurrency_def
        db_compra_stock_def db_compra_def db_empty_def env0_def)
  have c5: "receive_purchase_stock env0 (recibir_req 1) ?d1 =
       (\<lparr>status = 400, payload = Msg (CompraYaEnEstado (Some ''Confirmado''))\<rparr>, ?d1)"
    using after by simp
  show ?thesis using c1 c2 c3 c4 c5 by blast
qed

subsection \<open>Transactions\<close>

lemma queryObject_snapshot: "queryObject q c = (r, c') \<Longrightarrow> snapshot c' = snapshot c"
  by (auto simp: queryObject_def split: sum.splits prod.splits)

lemma sale_item_snapshot: "sale_item env suc vid item c = (r, c') \<Longrightarrow> snapshot c' = snapshot c"
  unfolding sale_item_def
  by (auto split: if_splits option.splits sum.splits prod.splits dest!: queryObject_snapshot)

lemma sale_items_snapshot: "sale_items env suc vid items c = (r, c') \<Longrightarrow> snapshot c' = snapshot c"
proof (induction items arbitrary: c)
  case Nil
  then show ?case by simp
next
  case (Cons item rest)
  then show ?case
    by (auto split: sum.splits prod.splits dest: sale_item_snapshot)
qed

lemma create_sale_try_rollback:
  assumes "snapshot c = None" and "create_sale_try env bdy c = (Inl e, c')"
  shows "current (sql_rollback c') = current c"
  using assms unfolding create_sale_try_def Let_def
  by (auto simp: sql_rollback_def sql_begin_def split: option.splits if_splits sum.splits prod.splits
      dest!: queryObject_snapshot sale_items_snapshot)

lemma create_sale_rollback:
  "status (fst (create_sale env req d)) \<noteq> 200 \<Longrightarrow> snd (create_sale env req d) = d"
  unfolding create_sale_def
  by (auto simp: connect_def split: if_splits sum.splits prod.splits
      dest!: create_sale_try_rollback[rotated])

subsection \<open>create-sale\<close>

text \<open>What the conditional UPDATE does: it touches the one row of the product and the
  branch, and only when the row holds at least the quantity asked for.\<close>

lemma update_inventario_cases:
  assumes "update_inventario env q p suc d = Inr (n, d')"
  shows "\<exists>pi bi. to_bigint env (JNum p) = Some pi \<and> to_bigint env suc = Some bi \<and>
           (case Inventario d (pi, bi) of
              None \<Rightarrow> n = 0 \<and> d' = d
            | Some r \<Rightarrow>
                if q \<le> cantidad r
                then n = 1 \<and> d' = d\<lparr>Inventario := (Inventario d)((pi, bi) \<mapsto> r\<lparr>cantidad := cantidad r - q\<rparr>)\<rparr>
                else n = 0 \<and> d' = d)"
  using assms unfolding update_inventario_def
  by (auto split: option.splits if_splits)

lemma inv_kept_refl: "inv_kept d d"
  by (simp add: inv_kept_def)

lemma inv_kept_trans: "inv_kept d1 d2 \<Longrightarrow> inv_kept d2 d3 \<Longrightarrow> inv_kept d1 d3"
  by (simp add: inv_kept_def)

lemma queryObject_kept:
  assumes "\<And>d x d'. q d = Inr (x, d') \<Longrightarrow> inv_kept d d'" and "queryObject q c = (r, c')"
  shows "inv_kept (current c) (current c')"
proof (cases "q (current c)")
  case (Inl e)
  then have "c' = c" using assms(2) by (simp add: queryObject_def)
  then show ?thesis by (simp add: inv_kept_refl)
next
  case (Inr y)
  obtain x d' where y: "y = (x, d')" by (cases y)
  then have "current c' = d'" using assms(2) Inr by (auto simp: queryObject_def)
  then show ?thesis using assms(1)[of "current c" x d'] Inr y by simp
qed

lemma update_inventario_kept: "update_inventario env q p suc d = Inr (n, d') \<Longrightarrow> inv_kept d d'"
  unfolding update_inventario_def inv_kept_def inv_nonneg_def
  by (auto split: option.splits if_splits)

lemma insert_detalle_venta_kept: "insert_detalle_venta env vid p q u d = Inr (x, d') \<Longrightarrow> inv_kept d d'"
  unfolding insert_detalle_venta_def inv_kept_def inv_nonneg_def
  by (auto split: option.splits)

lemma select_stock_info_kept: "select_stock_info env p suc d = Inr (x, d') \<Longrightarrow> inv_kept d d'"
  unfolding select_stock_info_def inv_kept_def
  by (auto split: option.splits)

lemma insert_venta_kept: "insert_venta env suc m usr met d = Inr (x, d') \<Longrightarrow> inv_kept d d'"
  unfolding insert_venta_def inv_kept_def inv_nonneg_def
  by (auto split: option.splits if_splits)

lemma q_insert_detalle_venta_kept:
  "queryObject (insert_detalle_venta env vid p q u) c = (r, c') \<Longrightarrow> inv_kept (current c) (current c')"
  by (erule queryObject_kept[rotated]) (rule insert_detalle_venta_kept)

lemma q_update_inventario_kept:
  "queryObject (update_inventario env q p suc) c = (r, c') \<Longrightarrow> inv_kept (current c) (current c')"
  by (erule queryObject_kept[rotated]) (rule update_inventario_kept)

lemma q_select_stock_info_kept:
  "queryObject (select_stock_info env p suc) c = (r, c') \<Longrightarrow> inv_kept (current c) (current c')"
  by (erule queryObject_kept[rotated]) (rule select_stock_info_kept)

lemma q_insert_venta_kept:
  "queryObject (insert_venta env suc m usr met) c = (r, c') \<Longrightarrow> inv_kept (current c) (current c')"
  by (erule queryObject_kept[rotated]) (rule insert_venta_kept)

lemma sale_item_kept:
  assumes "sale_item env suc vid item c = (res, c')"
  shows "inv_kept (current c) (current c')"
  using assms unfolding sale_item_def
  by (auto split: if_splits option.splits prod.splits sum.splits
      dest!: q_insert_detalle_venta_kept q_update_inventario_kept q_select_stock_info_kept
      intro: inv_kept_refl inv_kept_trans)

lemma sale_items_kept:
  "sale_items env suc vid items c = (res, c') \<Longrightarrow> inv_kept (current c) (current c')"
proof (induction items arbitrary: c)
  case Nil
  then show ?case by (simp add: inv_kept_refl)
next
  case (Cons item rest)
  show ?case
  proof (cases "sale_item env suc vid item c")
    case (Pair r1 c1)
    have k1: "inv_kept (current c) (current c1)" using sale_item_kept[OF Pair] .
    show ?thesis
    proof (cases r1)
      case (Inl e)
      then show ?thesis using Cons.prems Pair k1 by simp
    next
      case (Inr u)
      then have "sale_items env suc vid rest c1 = (res, c')" using Cons.prems Pair by simp
      from Cons.IH[OF this] k1 show ?thesis by (rule inv_kept_trans[rotated])
    qed
  qed
qed

lemma create_sale_try_kept:
  assumes "create_sale_try env bdy c = (res, c')"
  shows "inv_kept (current c) (current c')"
proof -
  have b: "current (sql_begin c) = current c" by (simp add: sql_begin_def split: option.splits)
  show ?thesis
    using assms unfolding create_sale_try_def Let_def
    by (auto simp: sql_commit_def split: if_splits option.splits prod.splits sum.splits
        dest!: q_insert_venta_kept sale_items_kept intro: inv_kept_refl inv_kept_trans simp: b)
qed

lemma create_sale_kept: "inv_kept d (snd (create_sale env req d))"
proof (cases "status (fst (create_sale env req d)) = 200")
  case False
  then show ?thesis using create_sale_rollback[of env req d] by (simp add: inv_kept_refl)
next
  case True
  then show ?thesis
    unfolding create_sale_def
    by (auto simp: connect_def inv_kept_refl split: if_splits prod.splits sum.splits
        dest!: create_sale_try_kept)
qed

lemma sale_items_append:
  "sale_items env suc vid (pre @ rest) c =
     (case sale_items env suc vid pre c of
        (Inl e, c') \<Rightarrow> (Inl e, c')
      | (Inr u, c') \<Rightarrow> sale_items env suc vid rest c')"
  by (induction pre arbitrary: c) (auto split: prod.splits sum.splits)

text \<open>The request reaches an item and the item throws: the handler answers 500 with that
  error, and the database is as before the call.\<close>

lemma create_sale_item_error:
  assumes "http_method req \<noteq> ''OPTIONS''" and "pool_ok env" and "body req = Some b"
    and "\<not> nullish b" and "\<not> venta_datos_invalidos b"
    and "num (js_prop b ''monto_total'') = Some monto"
    and "queryObject (insert_venta env (js_prop b ''id_sucursal'') monto (js_prop b ''id_usuario'')
                        (js_prop b ''metodo_pago'')) (sql_begin (connect d)) = (Inr vid, c1)"
    and "elems (js_prop b ''items'') = pre @ item # rest"
    and "sale_items env (js_prop b ''id_sucursal'') vid pre c1 = (Inr (), c2)"
    and "sale_item env (js_prop b ''id_sucursal'') vid item c2 = (Inl e, c3)"
  shows "create_sale env req d = (\<lparr>status = 500, payload = Msg e\<rparr>, d)"
proof -
  have items: "sale_items env (js_prop b ''id_sucursal'') vid (elems (js_prop b ''items'')) c1 = (Inl e, c3)"
    using assms(8,9,10) by (simp add: sale_items_append)
  have tr: "create_sale_try env (body req) (connect d) = (Inl e, c3)"
    using assms(3,4,5,6,7) items unfolding create_sale_try_def Let_def by simp
  have "snapshot (connect d) = None" by (simp add: connect_def)
  from create_sale_try_rollback[OF this tr] have "current (sql_rollback c3) = d"
    by (simp add: connect_def)
  then show ?thesis using assms(1,2) tr by (simp add: create_sale_def)
qed

lemma sale_item_guard_fails:
  assumes "\<not> nullish item" and "num (js_prop item ''id_producto'') = Some p"
    and "num (js_prop item ''cantidad'') = Some q" and "num (js_prop item ''precio_unitario'') = Some u"
    and "0 < q" and "to_bigint env (JNum p) = Some ip" and "to_bigint env suc = Some ib"
    and "case Inventario (current c) (ip, ib) of None \<Rightarrow> True | Some r \<Rightarrow> cantidad r < q"
  shows "\<exists>c'. sale_item env suc vid item c =
           (Inl (StockInsuficiente
                  (case Inventario (current c) (ip, ib) of
                     None \<Rightarrow> ProductoID p
                   | Some r \<Rightarrow> (case Productos (current c) ip of
                                 None \<Rightarrow> ProductoID p
                               | Some n \<Rightarrow> if n \<noteq> [] then Nombre n else ProductoID p))
                  (case Inventario (current c) (ip, ib) of
                     None \<Rightarrow> 0
                   | Some r \<Rightarrow> (case Productos (current c) ip of None \<Rightarrow> 0 | Some n \<Rightarrow> cantidad r))
                  q), c')"
  using assms unfolding sale_item_def
  by (auto simp: queryObject_def insert_detalle_venta_def update_inventario_def select_stock_info_def
      productName_def availableStock_def split: option.splits)

lemmas sale_simps = create_sale_def create_sale_try_def venta_datos_invalidos_def insert_venta_def
  sale_item_def insert_detalle_venta_def update_inventario_def select_stock_info_def
  productName_def availableStock_def db_stock_def sale_body_def sale_line_def

text \<open>
  C1. create-sale never leaves a negative inventory quantity: if no row is negative
  before the call, none is after it, nor in any state the loop over the items goes
  through. The decrement is one conditional UPDATE: it subtracts the quantity from the
  row of the product and the branch exactly when that row holds at least the quantity,
  and otherwise changes nothing and reports zero rows. When the request reaches an item
  whose UPDATE matches no row, the handler answers with the insufficient-stock error
  carrying a name for the product, the available quantity and the requested quantity
  (the product's \<^verbatim>\<open>Nombre\<close> and the row's quantity when the row and a named product
  exist), and the database is as before the call.
\<close>

theorem create_sale_stock_guard:
  "(inv_nonneg d \<longrightarrow> inv_nonneg (snd (create_sale env req d)))
   \<and> (inv_nonneg (current c) \<longrightarrow> inv_nonneg (current (snd (sale_items env suc vid items c))))
   \<and> (update_inventario env qty pid suc d = Inr (n, d') \<longrightarrow>
        (\<exists>ip ib. to_bigint env (JNum pid) = Some ip \<and> to_bigint env suc = Some ib \<and>
           (case Inventario d (ip, ib) of
              None \<Rightarrow> n = 0 \<and> d' = d
            | Some r \<Rightarrow>
                if qty \<le> cantidad r
                then n = 1 \<and> d' = d\<lparr>Inventario := (Inventario d)((ip, ib) \<mapsto> r\<lparr>cantidad := cantidad r - qty\<rparr>)\<rparr>
                else n = 0 \<and> d' = d)))
   \<and> (http_method req \<noteq> ''OPTIONS'' \<and> pool_ok env \<and> body req = Some b \<and> \<not> nullish b
        \<and> \<not> venta_datos_invalidos b \<and> num (js_prop b ''monto_total'') = Some monto
        \<and> queryObject (insert_venta env (js_prop b ''id_sucursal'') monto (js_prop b ''id_usuario'')
                          (js_prop b ''metodo_pago'')) (sql_begin (connect d)) = (Inr newVentaId, c1)
        \<and> elems (js_prop b ''items'') = pre @ item # rest
        \<and> sale_items env (js_prop b ''id_sucursal'') newVentaId pre c1 = (Inr (), c2)
        \<and> \<not> nullish item \<and> num (js_prop item ''id_producto'') = Some p
        \<and> num (js_prop item ''cantidad'') = Some q \<and> num (js_prop item ''precio_unitario'') = Some u
        \<and> 0 < q \<and> to_bigint env (JNum p) = Some ip \<and> to_bigint env (js_prop b ''id_sucursal'') = Some ib
        \<and> (case Inventario (current c2) (ip, ib) of None \<Rightarrow> True | Some r \<Rightarrow> cantidad r < q)
      \<longrightarrow> (\<exists>label avail.
             create_sale env req d = (\<lparr>status = 500, payload = Msg (StockInsuficiente label avail q)\<rparr>, d)
             \<and> (\<forall>r nm. Inventario (current c2) (ip, ib) = Some r \<and> Productos d ip = Some nm \<and> nm \<noteq> []
                    \<longrightarrow> label = Nombre nm \<and> avail = cantidad r)))"
proof (intro conjI impI)
  assume "inv_nonneg d"
  then show "inv_nonneg (snd (create_sale env req d))"
    using create_sale_kept[of d env req] by (simp add: inv_kept_def)
next
  assume "inv_nonneg (current c)"
  then show "inv_nonneg (current (snd (sale_items env suc vid items c)))"
    using sale_items_kept[of env suc vid items c "fst (sale_items env suc vid items c)"
        "snd (sale_items env suc vid items c)"]
    by (simp add: inv_kept_def)
next
  assume "update_inventario env qty pid suc d = Inr (n, d')"
  then show "\<exists>ip ib. to_bigint env (JNum pid) = Some ip \<and> to_bigint env suc = Some ib \<and>
           (case Inventario d (ip, ib) of
              None \<Rightarrow> n = 0 \<and> d' = d
            | Some r \<Rightarrow>
                if qty \<le> cantidad r
                then n = 1 \<and> d' = d\<lparr>Inventario := (Inventario d)((ip, ib) \<mapsto> r\<lparr>cantidad := cantidad r - qty\<rparr>)\<rparr>
                else n = 0 \<and> d' = d)"
    by (rule update_inventario_cases)
next
  assume a: "http_method req \<noteq> ''OPTIONS'' \<and> pool_ok env \<and> body req = Some b \<and> \<not> nullish b
        \<and> \<not> venta_datos_invalidos b \<and> num (js_prop b ''monto_total'') = Some monto
        \<and> queryObject (insert_venta env (js_prop b ''id_sucursal'') monto (js_prop b ''id_usuario'')
                          (js_prop b ''metodo_pago'')) (sql_begin (connect d)) = (Inr newVentaId, c1)
        \<and> elems (js_prop b ''items'') = pre @ item # rest
        \<and> sale_items env (js_prop b ''id_sucursal'') newVentaId pre c1 = (Inr (), c2)
        \<and> \<not> nullish item \<and> num (js_prop item ''id_producto'') = Some p
        \<and> num (js_prop item ''cantidad'') = Some q \<and> num (js_prop item ''precio_unitario'') = Some u
        \<and> 0 < q \<and> to_bigint env (JNum p) = Some ip \<and> to_bigint env (js_prop b ''id_sucursal'') = Some ib
        \<and> (case Inventario (current c2) (ip, ib) of None \<Rightarrow> True | Some r \<Rightarrow> cantidad r < q)"
  let ?label = "case Inventario (current c2) (ip, ib) of
                     None \<Rightarrow> ProductoID p
                   | Some r \<Rightarrow> (case Productos (current c2) ip of
                                 None \<Rightarrow> ProductoID p
                               | Some n \<Rightarrow> if n \<noteq> [] then Nombre n else ProductoID p)"
  let ?avail = "case Inventario (current c2) (ip, ib) of
                     None \<Rightarrow> 0
                   | Some r \<Rightarrow> (case Productos (current c2) ip of None \<Rightarrow> 0 | Some n \<Rightarrow> cantidad r)"
  from a obtain c3 where it: "sale_item env (js_prop b ''id_sucursal'') newVentaId item c2 =
      (Inl (StockInsuficiente ?label ?avail q), c3)"
    using sale_item_guard_fails[of item p q u env ip "js_prop b ''id_sucursal''" ib c2 newVentaId]
    by blast
  have res: "create_sale env req d = (\<lparr>status = 500, payload = Msg (StockInsuficiente ?label ?avail q)\<rparr>, d)"
    using create_sale_item_error[of req env b monto d newVentaId c1 pre item rest c2 _ c3] a it
    by blast
  have k1: "inv_kept (current (sql_begin (connect d))) (current c1)"
    using a q_insert_venta_kept by blast
  have k2: "inv_kept (current c1) (current c2)" using a sale_items_kept by blast
  have prods: "Productos (current c2) = Productos d"
    using k1 k2 by (simp add: inv_kept_def sql_begin_def connect_def)
  have "\<forall>r nm. Inventario (current c2) (ip, ib) = Some r \<and> Productos d ip = Some nm \<and> nm \<noteq> []
                    \<longrightarrow> ?label = Nombre nm \<and> ?avail = cantidad r"
    by (simp add: prods)
  then show "\<exists>label avail.
             create_sale env req d = (\<lparr>status = 500, payload = Msg (StockInsuficiente label avail q)\<rparr>, d)
             \<and> (\<forall>r nm. Inventario (current c2) (ip, ib) = Some r \<and> Productos d ip = Some nm \<and> nm \<noteq> []
                    \<longrightarrow> label = Nombre nm \<and> avail = cantidad r)"
    using res by blast
qed

text \<open>The scenario of the specification: product 7 in branch 2. With 5 in stock a sale of
  3 leaves 2; with 2 in stock the same sale is refused, \<^verbatim>\<open>Disponible: 2, Solicitado: 3\<close>.\<close>

theorem create_sale_stock_guard_witness:
  "inv_nonneg (db_stock 5)
   \<and> inv_nonneg (snd (create_sale env0 (post (sale_body [sale_line 7 3])) (db_stock 5)))
   \<and> Inventario (snd (create_sale env0 (post (sale_body [sale_line 7 3])) (db_stock 5))) (7, 2) =
       Some \<lparr>cantidad = 2, costo_promedio = 4\<rparr>
   \<and> inv_nonneg (current (snd (sale_items env0 (JNum 2) 1 [sale_line 7 3, sale_line 7 3] (connect (db_stock 5)))))
   \<and> update_inventario env0 3 7 (JNum 2) (db_stock 2) = Inr (0, db_stock 2)
   \<and> create_sale env0 (post (sale_body [sale_line 7 3])) (db_stock 2) =
       (\<lparr>status = 500, payload = Msg (StockInsuficiente (Nombre ''Martillo'') 2 3)\<rparr>, db_stock 2)"
proof -
  let ?req = "post (sale_body [sale_line 7 3])"
  let ?b = "sale_body [sale_line 7 3]"
  have nn: "inv_nonneg (db_stock n)" if "0 \<le> n" for n
    using that by (simp add: inv_nonneg_def db_stock_def db_empty_def)
  have c1: "inv_nonneg (snd (create_sale env0 ?req (db_stock 5)))"
    using create_sale_stock_guard[where d = "db_stock 5" and env = env0 and req = ?req,
        THEN conjunct1] nn[of 5] by simp
  have c2: "Inventario (snd (create_sale env0 ?req (db_stock 5))) (7, 2) =
       Some \<lparr>cantidad = 2, costo_promedio = 4\<rparr>"
    by (simp add: sale_simps run_simps)
  have c3: "inv_nonneg (current (snd (sale_items env0 (JNum 2) 1 [sale_line 7 3, sale_line 7 3]
                (connect (db_stock 5)))))"
  proof -
    have "inv_nonneg (current (connect (db_stock 5)))" using nn[of 5] by (simp add: connect_def)
    then show ?thesis
      by (rule create_sale_stock_guard[THEN conjunct2, THEN conjunct1, rule_format])
  qed
  have u: "update_inventario env0 3 7 (JNum 2) (db_stock 2) =
             Inr (fst (projr (update_inventario env0 3 7 (JNum 2) (db_stock 2))),
                  snd (projr (update_inventario env0 3 7 (JNum 2) (db_stock 2))))"
    by (simp add: update_inventario_def db_stock_def run_simps)
  have c4: "update_inventario env0 3 7 (JNum 2) (db_stock 2) = Inr (0, db_stock 2)"
    using create_sale_stock_guard[where env = env0 and qty = 3 and pid = 7 and suc = "JNum 2"
        and d = "db_stock 2", THEN conjunct2, THEN conjunct2, THEN conjunct1, rule_format, OF u] u
    by (auto simp: run_simps db_stock_def)
  let ?c1 = "snd (queryObject (insert_venta env0 (js_prop ?b ''id_sucursal'') 30 (js_prop ?b ''id_usuario'')
                          (js_prop ?b ''metodo_pago'')) (sql_begin (connect (db_stock 2))))"
  have h: "http_method ?req \<noteq> ''OPTIONS'' \<and> pool_ok env0 \<and> body ?req = Some ?b \<and> \<not> nullish ?b
        \<and> \<not> venta_datos_invalidos ?b \<and> num (js_prop ?b ''monto_total'') = Some 30
        \<and> queryObject (insert_venta env0 (js_prop ?b ''id_sucursal'') 30 (js_prop ?b ''id_usuario'')
                          (js_prop ?b ''metodo_pago'')) (sql_begin (connect (db_stock 2))) = (Inr 1, ?c1)
        \<and> elems (js_prop ?b ''items'') = [] @ sale_line 7 3 # []
        \<and> sale_items env0 (js_prop ?b ''id_sucursal'') 1 [] ?c1 = (Inr (), ?c1)
        \<and> \<not> nullish (sale_line 7 3) \<and> num (js_prop (sale_line 7 3) ''id_producto'') = Some 7
        \<and> num (js_prop (sale_line 7 3) ''cantidad'') = Some 3
        \<and> num (js_prop (sale_line 7 3) ''precio_unitario'') = Some 10
        \<and> 0 < (3::real) \<and> to_bigint env0 (JNum 7) = Some 7 \<and> to_bigint env0 (js_prop ?b ''id_sucursal'') = Some 2
        \<and> (case Inventario (current ?c1) (7, 2) of None \<Rightarrow> True | Some r \<Rightarrow> cantidad r < 3)"
    by (simp add: sale_simps run_simps)
  obtain label avail where
    res: "create_sale env0 ?req (db_stock 2) =
            (\<lparr>status = 500, payload = Msg (StockInsuficiente label avail 3)\<rparr>, db_stock 2)"
    and nm: "\<forall>r nm. Inventario (current ?c1) (7, 2) = Some r \<and> Productos (db_stock 2) 7 = Some nm \<and> nm \<noteq> []
                    \<longrightarrow> label = Nombre nm \<and> avail = cantidad r"
    using create_sale_stock_guard[THEN conjunct2, THEN conjunct2, THEN conjunct2, rule_format, OF h]
    by blast
  have "Inventario (current ?c1) (7, 2) = Some \<lparr>cantidad = 2, costo_promedio = 4\<rparr>
        \<and> Productos (db_stock 2) 7 = Some ''Martillo'' \<and> ''Martillo'' \<noteq> []"
    by (simp add: sale_simps run_simps)
  with nm have "label = Nombre ''Martillo'' \<and> avail = 2" by fastforce
  with res have c5: "create_sale env0 ?req (db_stock 2) =
       (\<lparr>status = 500, payload = Msg (StockInsuficiente (Nombre ''Martillo'') 2 3)\<rparr>, db_stock 2)"
    by simp
  show ?thesis using nn[of 5] c1 c2 c3 c4 c5 by simp
qed

lemma inv_kept_sin_inventario:
  assumes "inv_kept d d'" and "sin_inventario env suc d item"
  shows "sin_inventario env suc d' item"
proof -
  have "Inventario d' k = None" if "Inventario d k = None" for k
    using that assms(1) unfolding inv_kept_def by (metis domIff)
  then show ?thesis using assms(2) unfolding sin_inventario_def by blast
qed

lemma sale_item_sin_inventario:
  assumes "sin_inventario env suc (current c) item"
  shows "\<exists>e c'. sale_item env suc vid item c = (Inl e, c')"
  using assms unfolding sale_item_def sin_inventario_def
  by (auto simp: queryObject_def insert_detalle_venta_def update_inventario_def select_stock_info_def
      split: option.splits)

lemma sale_items_sin_inventario:
  assumes "item \<in> set items" and "sin_inventario env suc (current c) item"
  shows "\<exists>e c'. sale_items env suc vid items c = (Inl e, c')"
  using assms
proof (induction items arbitrary: c)
  case Nil
  then show ?case by simp
next
  case (Cons x xs)
  show ?case
  proof (cases "sale_item env suc vid x c")
    case (Pair r1 c1)
    show ?thesis
    proof (cases r1)
      case (Inl e)
      then show ?thesis using Pair by simp
    next
      case (Inr u)
      have "x \<noteq> item" using sale_item_sin_inventario[of env suc c item vid] Cons.prems(2) Pair Inr
        by auto
      then have m: "item \<in> set xs" using Cons.prems(1) by simp
      have "sin_inventario env suc (current c1) item"
        using inv_kept_sin_inventario[OF sale_item_kept[OF Pair] Cons.prems(2)] .
      from Cons.IH[OF m this] show ?thesis using Pair Inr by simp
    qed
  qed
qed

lemma create_sale_try_sin_inventario:
  assumes "item \<in> set (elems (js_prop b ''items''))"
    and "sin_inventario env (js_prop b ''id_sucursal'') (current c) item"
  shows "\<exists>e c'. create_sale_try env (Some b) c = (Inl e, c')"
proof -
  have b: "current (sql_begin c) = current c" by (simp add: sql_begin_def split: option.splits)
  have it: "\<forall>vid. \<exists>e c'. sale_items env (js_prop b ''id_sucursal'') vid (elems (js_prop b ''items'')) c1 = (Inl e, c')"
    if "queryObject (insert_venta env (js_prop b ''id_sucursal'') m usr met) (sql_begin c) = (r, c1)"
    for m usr met r c1
    using sale_items_sin_inventario[OF assms(1)]
      inv_kept_sin_inventario[OF q_insert_venta_kept[OF that]] assms(2) b
    by simp
  show ?thesis
    unfolding create_sale_try_def Let_def
    apply (simp split: if_splits option.splits prod.splits sum.splits)
    apply (intro allI impI)
    apply (elim exE)
    apply (drule it)
    apply (metis Inl_Inr_False prod.inject)
    done
qed

text \<open>
  C10. When create-sale reaches an item whose product and branch have no inventory row,
  the conditional UPDATE matches no row and the handler answers with the
  insufficient-stock error (not a not-found error) reporting the available quantity 0 and
  the name \<^verbatim>\<open>Producto ID <id>\<close>: the name is looked up through the inventory row, so the
  fallback is used whether or not the product exists. Every request that contains such an
  item fails with status 500, and the database is as before the call.
\<close>

theorem create_sale_no_inventory_row:
  "(http_method req \<noteq> ''OPTIONS'' \<and> pool_ok env \<and> body req = Some b \<and> \<not> nullish b
        \<and> \<not> venta_datos_invalidos b \<and> num (js_prop b ''monto_total'') = Some monto
        \<and> queryObject (insert_venta env (js_prop b ''id_sucursal'') monto (js_prop b ''id_usuario'')
                          (js_prop b ''metodo_pago'')) (sql_begin (connect d)) = (Inr newVentaId, c1)
        \<and> elems (js_prop b ''items'') = pre @ item # rest
        \<and> sale_items env (js_prop b ''id_sucursal'') newVentaId pre c1 = (Inr (), c2)
        \<and> \<not> nullish item \<and> num (js_prop item ''id_producto'') = Some p
        \<and> num (js_prop item ''cantidad'') = Some q \<and> num (js_prop item ''precio_unitario'') = Some u
        \<and> 0 < q \<and> to_bigint env (JNum p) = Some ip \<and> to_bigint env (js_prop b ''id_sucursal'') = Some ib
        \<and> Inventario d (ip, ib) = None
      \<longrightarrow> create_sale env req d =
            (\<lparr>status = 500, payload = Msg (StockInsuficiente (ProductoID p) 0 q)\<rparr>, d))
   \<and> (http_method req \<noteq> ''OPTIONS'' \<and> body req = Some b \<and> item \<in> set (elems (js_prop b ''items''))
        \<and> sin_inventario env (js_prop b ''id_sucursal'') d item
      \<longrightarrow> status (fst (create_sale env req d)) = 500 \<and> snd (create_sale env req d) = d)"
proof (intro conjI impI)
  assume a: "http_method req \<noteq> ''OPTIONS'' \<and> pool_ok env \<and> body req = Some b \<and> \<not> nullish b
        \<and> \<not> venta_datos_invalidos b \<and> num (js_prop b ''monto_total'') = Some monto
        \<and> queryObject (insert_venta env (js_prop b ''id_sucursal'') monto (js_prop b ''id_usuario'')
                          (js_prop b ''metodo_pago'')) (sql_begin (connect d)) = (Inr newVentaId, c1)
        \<and> elems (js_prop b ''items'') = pre @ item # rest
        \<and> sale_items env (js_prop b ''id_sucursal'') newVentaId pre c1 = (Inr (), c2)
        \<and> \<not> nullish item \<and> num (js_prop item ''id_producto'') = Some p
        \<and> num (js_prop item ''cantidad'') = Some q \<and> num (js_prop item ''precio_unitario'') = Some u
        \<and> 0 < q \<and> to_bigint env (JNum p) = Some ip \<and> to_bigint env (js_prop b ''id_sucursal'') = Some ib
        \<and> Inventario d (ip, ib) = None"
  have k1: "inv_kept (current (sql_begin (connect d))) (current c1)"
    using a q_insert_venta_kept by blast
  have k2: "inv_kept (current c1) (current c2)" using a sale_items_kept by blast
  have "dom (Inventario (current c2)) = dom (Inventario d)"
    using k1 k2 by (simp add: inv_kept_def sql_begin_def connect_def)
  then have none: "Inventario (current c2) (ip, ib) = None" using a by (metis domIff)
  obtain c3 where it: "sale_item env (js_prop b ''id_sucursal'') newVentaId item c2 =
      (Inl (StockInsuficiente (ProductoID p) 0 q), c3)"
    using sale_item_guard_fails[of item p q u env ip "js_prop b ''id_sucursal''" ib c2 newVentaId] a none
    by auto
  show "create_sale env req d =
            (\<lparr>status = 500, payload = Msg (StockInsuficiente (ProductoID p) 0 q)\<rparr>, d)"
    using create_sale_item_error[of req env b monto d newVentaId c1 pre item rest c2 _ c3] a it
    by blast
next
  assume a: "http_method req \<noteq> ''OPTIONS'' \<and> body req = Some b \<and> item \<in> set (elems (js_prop b ''items''))
        \<and> sin_inventario env (js_prop b ''id_sucursal'') d item"
  then obtain e c' where "create_sale_try env (body req) (connect d) = (Inl e, c')"
    using create_sale_try_sin_inventario[of item b env "connect d"] by (auto simp: connect_def)
  then have st: "status (fst (create_sale env req d)) = 500"
    using a by (simp add: create_sale_def)
  then show "status (fst (create_sale env req d)) = 500" .
  from st show "snd (create_sale env req d) = d" by (simp add: create_sale_rollback)
qed

text \<open>Product 7 has 5 units in branch 2, product 9 has neither a product row nor an
  inventory row: the sale of both is refused for product 9, and the decrement of
  product 7 is rolled back.\<close>

theorem create_sale_no_inventory_row_witness:
  "create_sale env0 (post (sale_body [sale_line 7 3, sale_line 9 1])) (db_stock 5) =
     (\<lparr>status = 500, payload = Msg (StockInsuficiente (ProductoID 9) 0 1)\<rparr>, db_stock 5)
   \<and> sale_line 9 1 \<in> set (elems (js_prop (sale_body [sale_line 7 3, sale_line 9 1]) ''items''))
   \<and> sin_inventario env0 (JNum 2) (db_stock 5) (sale_line 9 1)
   \<and> status (fst (create_sale env0 (post (sale_body [sale_line 9 1, sale_line 7 3])) (db_stock 5))) = 500
   \<and> snd (create_sale env0 (post (sale_body [sale_line 9 1, sale_line 7 3])) (db_stock 5)) = db_stock 5"
proof -
  let ?b = "sale_body [sale_line 7 3, sale_line 9 1]"
  let ?req = "post ?b"
  let ?c1 = "snd (queryObject (insert_venta env0 (js_prop ?b ''id_sucursal'') 30 (js_prop ?b ''id_usuario'')
                          (js_prop ?b ''metodo_pago'')) (sql_begin (connect (db_stock 5))))"
  let ?c2 = "snd (sale_items env0 (js_prop ?b ''id_sucursal'') 1 [sale_line 7 3] ?c1)"
  have h: "http_method ?req \<noteq> ''OPTIONS'' \<and> pool_ok env0 \<and> body ?req = Some ?b \<and> \<not> nullish ?b
        \<and> \<not> venta_datos_invalidos ?b \<and> num (js_prop ?b ''monto_total'') = Some 30
        \<and> queryObject (insert_venta env0 (js_prop ?b ''id_sucursal'') 30 (js_prop ?b ''id_usuario'')
                          (js_prop ?b ''metodo_pago'')) (sql_begin (connect (db_stock 5))) = (Inr 1, ?c1)
        \<and> elems (js_prop ?b ''items'') = [sale_line 7 3] @ sale_line 9 1 # []
        \<and> sale_items env0 (js_prop ?b ''id_sucursal'') 1 [sale_line 7 3] ?c1 = (Inr (), ?c2)
        \<and> \<not> nullish (sale_line 9 1) \<and> num (js_prop (sale_line 9 1) ''id_producto'') = Some 9
        \<and> num (js_prop (sale_line 9 1) ''cantidad'') = Some 1
        \<and> num (js_prop (sale_line 9 1) ''precio_unitario'') = Some 10
        \<and> 0 < (1::real) \<and> to_bigint env0 (JNum 9) = Some 9 \<and> to_bigint env0 (js_prop ?b ''id_sucursal'') = Some 2
        \<and> Inventario (db_stock 5) (9, 2) = None"
    by (simp add: sale_simps run_simps)
  have c1: "create_sale env0 ?req (db_stock 5) =
     (\<lparr>status = 500, payload = Msg (StockInsuficiente (ProductoID 9) 0 1)\<rparr>, db_stock 5)"
    by (rule create_sale_no_inventory_row[THEN conjunct1, rule_format, OF h])
  have c2: "sale_line 9 1 \<in> set (elems (js_prop ?b ''items''))"
    by (simp add: sale_body_def)
  have c3: "sin_inventario env0 (JNum 2) (db_stock 5) (sale_line 9 1)"
    by (simp add: sin_inventario_def sale_line_def db_stock_def run_simps)
  let ?b2 = "sale_body [sale_line 9 1, sale_line 7 3]"
  have h2: "http_method (post ?b2) \<noteq> ''OPTIONS'' \<and> body (post ?b2) = Some ?b2
        \<and> sale_line 9 1 \<in> set (elems (js_prop ?b2 ''items''))
        \<and> sin_inventario env0 (js_prop ?b2 ''id_sucursal'') (db_stock 5) (sale_line 9 1)"
    using c3 by (simp add: sale_body_def post_def)
  have c4: "status (fst (create_sale env0 (post ?b2) (db_stock 5))) = 500
            \<and> snd (create_sale env0 (post ?b2) (db_stock 5)) = db_stock 5"
    by (rule create_sale_no_inventory_row[THEN conjunct2, rule_format, OF h2])
  show ?thesis using c1 c2 c3 c4 by blast
qed

subsection \<open>create-purchase\<close>

lemmas compra_simps = create_purchase_def create_purchase_try_def compra_datos_invalidos_def
  insert_compra_def purchase_item_def insert_detalle_compra_def upsert_inventario_compra_def
  upsert_compra_at_def merge_compra_def compra_body_def compra_sin_estado_def compra_line_def

lemma purchase_item_snapshot:
  "purchase_item env suc cid item c = (r, c') \<Longrightarrow> snapshot c' = snapshot c"
  unfolding purchase_item_def
  by (auto split: if_splits option.splits sum.splits prod.splits dest!: queryObject_snapshot)

lemma purchase_items_snapshot:
  "purchase_items env suc cid items c = (r, c') \<Longrightarrow> snapshot c' = snapshot c"
proof (induction items arbitrary: c)
  case Nil
  then show ?case by simp
next
  case (Cons item rest)
  then show ?case
    by (auto split: sum.splits prod.splits dest: purchase_item_snapshot)
qed

lemma create_purchase_try_rollback:
  assumes "snapshot c = None" and "create_purchase_try env bdy c = (Inl e, c')"
  shows "current (sql_rollback c') = current c"
  using assms unfolding create_purchase_try_def Let_def
  by (auto simp: sql_rollback_def sql_begin_def split: option.splits if_splits sum.splits prod.splits
      dest!: queryObject_snapshot purchase_items_snapshot)



lemma create_purchase_fail_db:
  assumes "create_purchase_try env (body req) (connect d) = (Inl e, c')"
  shows "status (fst (create_purchase env req d)) = 500 \<or> http_method req = ''OPTIONS''"
    and "snd (create_purchase env req d) = d"
proof -
  have "snapshot (connect d) = None" by (simp add: connect_def)
  from create_purchase_try_rollback[OF this assms] have r: "current (sql_rollback c') = d"
    by (simp add: connect_def)
  show "status (fst (create_purchase env req d)) = 500 \<or> http_method req = ''OPTIONS''"
    using assms by (simp add: create_purchase_def)
  show "snd (create_purchase env req d) = d"
    using assms r by (simp add: create_purchase_def)
qed

lemma purchase_items_append:
  "purchase_items env suc cid (pre @ rest) c =
     (case purchase_items env suc cid pre c of
        (Inl e, c') \<Rightarrow> (Inl e, c')
      | (Inr u, c') \<Rightarrow> purchase_items env suc cid rest c')"
  by (induction pre arbitrary: c) (auto split: prod.splits sum.splits)

text \<open>An item that the validation of the loop refuses makes the loop throw.\<close>

lemma sale_item_invalido:
  "venta_item_invalido item \<Longrightarrow> \<exists>e. sale_item env suc vid item c = (Inl e, c)"
  unfolding sale_item_def venta_item_invalido_def
  by (cases "js_prop item ''id_producto''"; cases "js_prop item ''cantidad''";
      cases "js_prop item ''precio_unitario''") auto

lemma purchase_item_invalido:
  "compra_item_invalido item \<Longrightarrow> \<exists>e. purchase_item env suc cid item c = (Inl e, c)"
  unfolding purchase_item_def compra_item_invalido_def
  by (cases "js_prop item ''id_producto''"; cases "js_prop item ''cantidad''";
      cases "js_prop item ''costo_unitario''") auto

lemma sale_items_invalido:
  "\<exists>item\<in>set items. venta_item_invalido item \<Longrightarrow> \<exists>e c'. sale_items env suc vid items c = (Inl e, c')"
proof (induction items arbitrary: c)
  case Nil
  then show ?case by simp
next
  case (Cons x xs)
  show ?case
  proof (cases "sale_item env suc vid x c")
    case (Pair r1 c1)
    show ?thesis
    proof (cases r1)
      case (Inl e)
      then show ?thesis using Pair by simp
    next
      case (Inr u)
      then have "\<not> venta_item_invalido x" using sale_item_invalido[of x env suc vid c] Pair by auto
      then have "\<exists>item\<in>set xs. venta_item_invalido item" using Cons.prems by auto
      from Cons.IH[OF this, of c1] show ?thesis using Pair Inr by simp
    qed
  qed
qed

lemma purchase_items_invalido:
  "\<exists>item\<in>set items. compra_item_invalido item \<Longrightarrow>
     \<exists>e c'. purchase_items env suc cid items c = (Inl e, c')"
proof (induction items arbitrary: c)
  case Nil
  then show ?case by simp
next
  case (Cons x xs)
  show ?case
  proof (cases "purchase_item env suc cid x c")
    case (Pair r1 c1)
    show ?thesis
    proof (cases r1)
      case (Inl e)
      then show ?thesis using Pair by simp
    next
      case (Inr u)
      then have "\<not> compra_item_invalido x" using purchase_item_invalido[of x env suc cid c] Pair by auto
      then have "\<exists>item\<in>set xs. compra_item_invalido item" using Cons.prems by auto
      from Cons.IH[OF this, of c1] show ?thesis using Pair Inr by simp
    qed
  qed
qed

lemma create_sale_try_invalido:
  assumes "\<exists>item\<in>set (elems (js_prop b ''items'')). venta_item_invalido item"
  shows "\<exists>e c'. create_sale_try env (Some b) c = (Inl e, c')"
proof -
  have it: "\<forall>vid c1. \<exists>e c'. sale_items env (js_prop b ''id_sucursal'') vid (elems (js_prop b ''items'')) c1 = (Inl e, c')"
    using sale_items_invalido[OF assms] by blast
  show ?thesis
    unfolding create_sale_try_def Let_def
    apply (simp split: if_splits option.splits prod.splits sum.splits)
    apply (metis it Inl_Inr_False prod.inject)
    done
qed

lemma create_purchase_try_invalido:
  assumes "\<exists>item\<in>set (elems (js_prop b ''items'')). compra_item_invalido item"
  shows "\<exists>e c'. create_purchase_try env (Some b) c = (Inl e, c')"
proof -
  have it: "\<forall>cid c1. \<exists>e c'. purchase_items env (js_prop b ''id_sucursal'') cid (elems (js_prop b ''items'')) c1 = (Inl e, c')"
    using purchase_items_invalido[OF assms] by blast
  show ?thesis
    unfolding create_purchase_try_def Let_def
    apply (simp split: if_splits option.splits prod.splits sum.splits)
    apply (metis it Inl_Inr_False prod.inject)
    done
qed


text \<open>
  C8 as stated does not hold: a request that the validation of create-sale refuses (here
  one with an empty item list) is answered with status 500, not 400.
\<close>

theorem create_sale_malformed_status_counterexample:
  "venta_datos_invalidos (sale_body [])
   \<and> create_sale env0 (post (sale_body [])) db_empty =
       (\<lparr>status = 500, payload = Msg VentaDatosInvalidos\<rparr>, db_empty)
   \<and> status (fst (create_sale env0 (post (sale_body [])) db_empty)) \<noteq> 400"
  by (simp add: sale_simps run_simps)

text \<open>
  C8, amended. create-sale never answers 400. Its answers have status 200 or 500, and
  every failure is a 500 whose body is \<^verbatim>\<open>{msg: string}\<close>: the fixed configuration
  message or the message of the error thrown. Malformed input is among them: a body that
  the first validation refuses (a missing or falsy id_sucursal, id_usuario or metodo_pago,
  a monto_total that is not a number, items missing, not an array or empty) is answered
  with 500 and the invalid-data message, and a request with an item that the loop
  refuses is answered with 500 and a message.
\<close>

theorem create_sale_failure_status:
  "(status (fst (create_sale env req d)) = 200 \<or> status (fst (create_sale env req d)) = 500)
   \<and> (status (fst (create_sale env req d)) = 500 \<longrightarrow>
        payload (fst (create_sale env req d)) = ServerConfigurationError
        \<or> (\<exists>e. payload (fst (create_sale env req d)) = Msg e))
   \<and> (http_method req \<noteq> ''OPTIONS'' \<and> pool_ok env \<and> body req = Some b \<and> \<not> nullish b
        \<and> venta_datos_invalidos b
      \<longrightarrow> create_sale env req d = (\<lparr>status = 500, payload = Msg VentaDatosInvalidos\<rparr>, d))
   \<and> (http_method req \<noteq> ''OPTIONS'' \<and> pool_ok env \<and> body req = Some b
        \<and> (\<exists>item\<in>set (elems (js_prop b ''items'')). venta_item_invalido item)
      \<longrightarrow> status (fst (create_sale env req d)) = 500
          \<and> (\<exists>e. payload (fst (create_sale env req d)) = Msg e))"
proof (intro conjI impI)
  show "status (fst (create_sale env req d)) = 200 \<or> status (fst (create_sale env req d)) = 500"
    unfolding create_sale_def by (auto split: prod.splits sum.splits)
next
  assume "status (fst (create_sale env req d)) = 500"
  then show "payload (fst (create_sale env req d)) = ServerConfigurationError
        \<or> (\<exists>e. payload (fst (create_sale env req d)) = Msg e)"
    unfolding create_sale_def by (auto split: prod.splits sum.splits if_splits)
next
  assume "http_method req \<noteq> ''OPTIONS'' \<and> pool_ok env \<and> body req = Some b \<and> \<not> nullish b
        \<and> venta_datos_invalidos b"
  then show "create_sale env req d = (\<lparr>status = 500, payload = Msg VentaDatosInvalidos\<rparr>, d)"
    by (simp add: create_sale_def create_sale_try_def connect_def sql_rollback_def)
next
  assume a: "http_method req \<noteq> ''OPTIONS'' \<and> pool_ok env \<and> body req = Some b
        \<and> (\<exists>item\<in>set (elems (js_prop b ''items'')). venta_item_invalido item)"
  then obtain e c' where "create_sale_try env (body req) (connect d) = (Inl e, c')"
    using create_sale_try_invalido[of b env "connect d"] by auto
  then have r: "fst (create_sale env req d) = \<lparr>status = 500, payload = Msg e\<rparr>"
    using a by (simp add: create_sale_def)
  then show "status (fst (create_sale env req d)) = 500" by simp
  from r show "\<exists>e. payload (fst (create_sale env req d)) = Msg e" by simp
qed

theorem create_sale_failure_status_witness:
  "create_sale env0 (post (sale_body [])) db_empty =
     (\<lparr>status = 500, payload = Msg VentaDatosInvalidos\<rparr>, db_empty)
   \<and> fst (create_sale env0 (post (sale_body [sale_line 7 0])) db_empty) =
       \<lparr>status = 500, payload = Msg (VentaItemInvalido (JNum 7))\<rparr>
   \<and> fst (create_sale (env0\<lparr>pool_ok := False\<rparr>) (post (sale_body [sale_line 7 3])) db_empty) =
       \<lparr>status = 500, payload = ServerConfigurationError\<rparr>"
proof -
  let ?b0 = "sale_body []"
  let ?b1 = "sale_body [sale_line 7 0]"
  have h0: "http_method (post ?b0) \<noteq> ''OPTIONS'' \<and> pool_ok env0 \<and> body (post ?b0) = Some ?b0
        \<and> \<not> nullish ?b0 \<and> venta_datos_invalidos ?b0"
    by (simp add: post_def sale_body_def env0_def venta_datos_invalidos_def)
  have c0: "create_sale env0 (post ?b0) db_empty =
     (\<lparr>status = 500, payload = Msg VentaDatosInvalidos\<rparr>, db_empty)"
    by (rule create_sale_failure_status[THEN conjunct2, THEN conjunct2, THEN conjunct1, rule_format, OF h0])
  have h1: "http_method (post ?b1) \<noteq> ''OPTIONS'' \<and> pool_ok env0 \<and> body (post ?b1) = Some ?b1
        \<and> (\<exists>item\<in>set (elems (js_prop ?b1 ''items'')). venta_item_invalido item)"
    by (simp add: post_def sale_body_def sale_line_def env0_def venta_item_invalido_def)
  have s1: "status (fst (create_sale env0 (post ?b1) db_empty)) = 500
          \<and> (\<exists>e. payload (fst (create_sale env0 (post ?b1) db_empty)) = Msg e)"
    by (rule create_sale_failure_status[THEN conjunct2, THEN conjunct2, THEN conjunct2, rule_format, OF h1])
  have c1: "fst (create_sale env0 (post ?b1) db_empty) =
       \<lparr>status = 500, payload = Msg (VentaItemInvalido (JNum 7))\<rparr>"
    using s1 by (simp add: sale_simps run_simps)
  let ?out = "create_sale (env0\<lparr>pool_ok := False\<rparr>) (post (sale_body [sale_line 7 3])) db_empty"
  have s2: "status (fst ?out) = 500" by (simp add: create_sale_def post_def env0_def)
  have "payload (fst ?out) = ServerConfigurationError \<or> (\<exists>e. payload (fst ?out) = Msg e)"
    using create_sale_failure_status[THEN conjunct2, THEN conjunct1, THEN mp, OF s2] .
  then have c2: "fst ?out = \<lparr>status = 500, payload = ServerConfigurationError\<rparr>"
    by (simp add: create_sale_def post_def env0_def)
  show ?thesis using c0 c1 c2 by blast
qed

lemma create_purchase_item_error:
  assumes "http_method req \<noteq> ''OPTIONS''" and "pool_ok env" and "body req = Some b"
    and "\<not> nullish b" and "\<not> compra_datos_invalidos b"
    and "num (js_prop b ''monto_total'') = Some monto"
    and "queryObject (insert_compra env (js_prop b ''id_proveedor'') (js_prop b ''id_sucursal'') monto
                        (js_prop b ''estado'')) (sql_begin (connect d)) = (Inr cid, c1)"
    and "elems (js_prop b ''items'') = pre @ item # rest"
    and "purchase_items env (js_prop b ''id_sucursal'') cid pre c1 = (Inr (), c2)"
    and "purchase_item env (js_prop b ''id_sucursal'') cid item c2 = (Inl e, c3)"
  shows "create_purchase env req d = (\<lparr>status = 500, payload = MsgDatabaseError e\<rparr>, d)"
proof -
  have items: "purchase_items env (js_prop b ''id_sucursal'') cid (elems (js_prop b ''items'')) c1 = (Inl e, c3)"
    using assms(8,9,10) by (simp add: purchase_items_append)
  have tr: "create_purchase_try env (body req) (connect d) = (Inl e, c3)"
    using assms(3,4,5,6,7) items unfolding create_purchase_try_def Let_def by simp
  have "snapshot (connect d) = None" by (simp add: connect_def)
  from create_purchase_try_rollback[OF this tr] have "current (sql_rollback c3) = d"
    by (simp add: connect_def)
  then show ?thesis using assms(1,2) tr by (simp add: create_purchase_def)
qed

lemma purchase_item_invalido_error:
  assumes "compra_item_invalido item" and "\<not> nullish item"
  shows "purchase_item env suc cid item c = (Inl (CompraItemInvalido (js_prop item ''id_producto'')), c)"
  using assms unfolding purchase_item_def compra_item_invalido_def
  by (cases "js_prop item ''id_producto''"; cases "js_prop item ''cantidad''";
      cases "js_prop item ''costo_unitario''") auto


text \<open>The errors of the statements and of the loop are not the invalid-data error of the
  validation, and none is the error of the serialisation.\<close>

lemma purchase_item_errors:
  "purchase_item env suc cid item c = (Inl e, c') \<Longrightarrow> e \<noteq> CompraDatosInvalidos \<and> e \<noteq> SerializeBigInt"
  unfolding purchase_item_def
  by (auto simp: queryObject_def insert_detalle_compra_def upsert_inventario_compra_def
      upsert_compra_at_def merge_compra_def
      split: if_splits option.splits sum.splits prod.splits)

lemma purchase_items_errors:
  "purchase_items env suc cid items c = (Inl e, c') \<Longrightarrow> e \<noteq> CompraDatosInvalidos \<and> e \<noteq> SerializeBigInt"
proof (induction items arbitrary: c)
  case Nil
  then show ?case by simp
next
  case (Cons item rest)
  then show ?case
    by (auto split: sum.splits prod.splits dest: purchase_item_errors)
qed

lemma is_number_num: "is_number v \<Longrightarrow> \<exists>r. num v = Some r"
  by (cases v) auto

lemma create_purchase_try_errors:
  assumes "create_purchase_try env (Some b) c = (Inl e, c')"
  shows "e \<noteq> SerializeBigInt" and "\<not> nullish b \<Longrightarrow> \<not> compra_datos_invalidos b \<Longrightarrow> e \<noteq> CompraDatosInvalidos"
proof -
  show "e \<noteq> SerializeBigInt"
    using assms unfolding create_purchase_try_def Let_def
    by (auto simp: queryObject_def insert_compra_def
        split: if_splits option.splits sum.splits prod.splits dest: purchase_items_errors)
  assume n: "\<not> nullish b" and v: "\<not> compra_datos_invalidos b"
  then obtain monto where m: "num (js_prop b ''monto_total'') = Some monto"
    using is_number_num[of "js_prop b ''monto_total''"] by (auto simp: compra_datos_invalidos_def)
  show "e \<noteq> CompraDatosInvalidos"
    using assms n v m unfolding create_purchase_try_def Let_def
    by (auto simp: queryObject_def insert_compra_def
        split: if_splits option.splits sum.splits prod.splits dest: purchase_items_errors)
qed

text \<open>
  C9 as stated does not hold: the validation of create-purchase does not look at
  \<^verbatim>\<open>estado\<close>, and it looks at the ids for presence only. A request without \<^verbatim>\<open>estado\<close>
  passes the validation and reaches the INSERT: the purchase is committed with a NULL
  state, whether the answer is then 200 or, where the id comes back as a BigInt, the 500
  of the serialisation; or, where the column is declared NOT NULL, the database rejects
  the INSERT. A request whose \<^verbatim>\<open>id_sucursal\<close> is a text that is no id passes the
  validation too and is rejected by the database. In no case is the answer the
  invalid-data error.
\<close>

theorem create_purchase_validation_counterexample:
  "js_prop compra_sin_estado ''estado'' = JUndefined
   \<and> \<not> compra_datos_invalidos compra_sin_estado
   \<and> create_purchase env0 (post compra_sin_estado) db_empty =
       (\<lparr>status = 200, payload = CompraCreada 1\<rparr>, db_comprado None)
   \<and> create_purchase (env0\<lparr>compras_id_bigint := True\<rparr>) (post compra_sin_estado) db_empty =
       (\<lparr>status = 500, payload = MsgDatabaseError SerializeBigInt\<rparr>, db_comprado None)
   \<and> map_option c_estado (Compras (db_comprado None) 1) = Some None
   \<and> create_purchase (env0\<lparr>compras_estado_not_null := True\<rparr>) (post compra_sin_estado) db_empty =
       (\<lparr>status = 500, payload = MsgDatabaseError DbNotNullViolation\<rparr>, db_empty)
   \<and> js_prop compra_sucursal_texto ''id_sucursal'' = JStr ''abc''
   \<and> \<not> compra_datos_invalidos compra_sucursal_texto
   \<and> create_purchase env0 (post compra_sucursal_texto) db_empty =
       (\<lparr>status = 500, payload = MsgDatabaseError DbInvalidInput\<rparr>, db_empty)"
proof -
  have a: "js_prop compra_sin_estado ''estado'' = JUndefined"
    "\<not> compra_datos_invalidos compra_sin_estado"
    "js_prop compra_sucursal_texto ''id_sucursal'' = JStr ''abc''"
    "\<not> compra_datos_invalidos compra_sucursal_texto"
    by (simp_all add: compra_sin_estado_def compra_sucursal_texto_def compra_datos_invalidos_def)
  have b: "create_purchase env0 (post compra_sin_estado) db_empty =
       (\<lparr>status = 200, payload = CompraCreada 1\<rparr>, db_comprado None)"
    by (simp add: compra_simps run_simps db_comprado_def)
  have c: "create_purchase (env0\<lparr>compras_id_bigint := True\<rparr>) (post compra_sin_estado) db_empty =
       (\<lparr>status = 500, payload = MsgDatabaseError SerializeBigInt\<rparr>, db_comprado None)"
    by (simp add: compra_simps run_simps db_comprado_def)
  have d: "map_option c_estado (Compras (db_comprado None) 1) = Some None"
    by (simp add: db_comprado_def db_empty_def)
  have e: "create_purchase (env0\<lparr>compras_estado_not_null := True\<rparr>) (post compra_sin_estado) db_empty =
       (\<lparr>status = 500, payload = MsgDatabaseError DbNotNullViolation\<rparr>, db_empty)"
    by (simp add: compra_simps run_simps)
  have f: "create_purchase env0 (post compra_sucursal_texto) db_empty =
       (\<lparr>status = 500, payload = MsgDatabaseError DbInvalidInput\<rparr>, db_empty)"
    by (simp add: compra_simps compra_sucursal_texto_def run_simps)
  show ?thesis using a b c d e f by blast
qed

text \<open>
  C9, amended. The validation of create-purchase fails with the invalid-data error, and
  nothing is persisted, whenever \<^verbatim>\<open>id_proveedor\<close> or \<^verbatim>\<open>id_sucursal\<close> is missing or falsy,
  \<^verbatim>\<open>monto_total\<close> is not a number, or \<^verbatim>\<open>items\<close> is missing, not an array or empty. A
  request with an item whose \<^verbatim>\<open>id_producto\<close>, \<^verbatim>\<open>cantidad\<close> or \<^verbatim>\<open>costo_unitario\<close> is not a
  number or whose quantity is not positive fails with status 500 and nothing is
  persisted; when the loop reaches such an item, the error is the invalid-item error
  naming its \<^verbatim>\<open>id_producto\<close>. These are all the checks: a request in which both ids are
  truthy, \<^verbatim>\<open>monto_total\<close> is a number and \<^verbatim>\<open>items\<close> is a non-empty array is never
  answered with the invalid-data error, whatever \<^verbatim>\<open>estado\<close> is and whatever the ids are.
\<close>

theorem create_purchase_validation:
  "(http_method req \<noteq> ''OPTIONS'' \<and> pool_ok env \<and> body req = Some b \<and> \<not> nullish b
        \<and> (\<not> truthy (js_prop b ''id_proveedor'') \<or> \<not> truthy (js_prop b ''id_sucursal'')
            \<or> \<not> is_number (js_prop b ''monto_total'') \<or> \<not> truthy (js_prop b ''items'')
            \<or> \<not> is_array (js_prop b ''items'') \<or> elems (js_prop b ''items'') = [])
      \<longrightarrow> create_purchase env req d =
            (\<lparr>status = 500, payload = MsgDatabaseError CompraDatosInvalidos\<rparr>, d))
   \<and> (http_method req \<noteq> ''OPTIONS'' \<and> body req = Some b
        \<and> (\<exists>item\<in>set (elems (js_prop b ''items'')). compra_item_invalido item)
      \<longrightarrow> status (fst (create_purchase env req d)) = 500 \<and> snd (create_purchase env req d) = d)
   \<and> (http_method req \<noteq> ''OPTIONS'' \<and> pool_ok env \<and> body req = Some b \<and> \<not> nullish b
        \<and> \<not> compra_datos_invalidos b \<and> num (js_prop b ''monto_total'') = Some monto
        \<and> queryObject (insert_compra env (js_prop b ''id_proveedor'') (js_prop b ''id_sucursal'') monto
                          (js_prop b ''estado'')) (sql_begin (connect d)) = (Inr newCompraId, c1)
        \<and> elems (js_prop b ''items'') = pre @ item # rest
        \<and> purchase_items env (js_prop b ''id_sucursal'') newCompraId pre c1 = (Inr (), c2)
        \<and> \<not> nullish item \<and> compra_item_invalido item
      \<longrightarrow> create_purchase env req d =
            (\<lparr>status = 500,
              payload = MsgDatabaseError (CompraItemInvalido (js_prop item ''id_producto''))\<rparr>, d))
   \<and> (body req = Some b \<and> \<not> nullish b
        \<and> truthy (js_prop b ''id_proveedor'') \<and> truthy (js_prop b ''id_sucursal'')
        \<and> is_number (js_prop b ''monto_total'') \<and> truthy (js_prop b ''items'')
        \<and> is_array (js_prop b ''items'') \<and> elems (js_prop b ''items'') \<noteq> []
      \<longrightarrow> payload (fst (create_purchase env req d)) \<noteq> MsgDatabaseError CompraDatosInvalidos)"
proof (intro conjI impI)
  assume "http_method req \<noteq> ''OPTIONS'' \<and> pool_ok env \<and> body req = Some b \<and> \<not> nullish b
        \<and> (\<not> truthy (js_prop b ''id_proveedor'') \<or> \<not> truthy (js_prop b ''id_sucursal'')
            \<or> \<not> is_number (js_prop b ''monto_total'') \<or> \<not> truthy (js_prop b ''items'')
            \<or> \<not> is_array (js_prop b ''items'') \<or> elems (js_prop b ''items'') = [])"
  then show "create_purchase env req d =
            (\<lparr>status = 500, payload = MsgDatabaseError CompraDatosInvalidos\<rparr>, d)"
    by (simp add: create_purchase_def create_purchase_try_def compra_datos_invalidos_def
        connect_def sql_rollback_def)
next
  assume a: "http_method req \<noteq> ''OPTIONS'' \<and> body req = Some b
        \<and> (\<exists>item\<in>set (elems (js_prop b ''items'')). compra_item_invalido item)"
  then obtain e c' where t: "create_purchase_try env (body req) (connect d) = (Inl e, c')"
    using create_purchase_try_invalido[of b env "connect d"] by auto
  from create_purchase_fail_db(1)[OF t] a
  show "status (fst (create_purchase env req d)) = 500" by simp
  from create_purchase_fail_db(2)[OF t]
  show "snd (create_purchase env req d) = d" .
next
  assume a: "http_method req \<noteq> ''OPTIONS'' \<and> pool_ok env \<and> body req = Some b \<and> \<not> nullish b
        \<and> \<not> compra_datos_invalidos b \<and> num (js_prop b ''monto_total'') = Some monto
        \<and> queryObject (insert_compra env (js_prop b ''id_proveedor'') (js_prop b ''id_sucursal'') monto
                          (js_prop b ''estado'')) (sql_begin (connect d)) = (Inr newCompraId, c1)
        \<and> elems (js_prop b ''items'') = pre @ item # rest
        \<and> purchase_items env (js_prop b ''id_sucursal'') newCompraId pre c1 = (Inr (), c2)
        \<and> \<not> nullish item \<and> compra_item_invalido item"
  then have it: "purchase_item env (js_prop b ''id_sucursal'') newCompraId item c2 =
                   (Inl (CompraItemInvalido (js_prop item ''id_producto'')), c2)"
    using purchase_item_invalido_error by blast
  show "create_purchase env req d =
            (\<lparr>status = 500,
              payload = MsgDatabaseError (CompraItemInvalido (js_prop item ''id_producto''))\<rparr>, d)"
    using create_purchase_item_error[of req env b monto d newCompraId c1 pre item rest c2 _ c2] a it
    by blast
next
  assume a: "body req = Some b \<and> \<not> nullish b
        \<and> truthy (js_prop b ''id_proveedor'') \<and> truthy (js_prop b ''id_sucursal'')
        \<and> is_number (js_prop b ''monto_total'') \<and> truthy (js_prop b ''items'')
        \<and> is_array (js_prop b ''items'') \<and> elems (js_prop b ''items'') \<noteq> []"
  then have v: "\<not> compra_datos_invalidos b" by (simp add: compra_datos_invalidos_def)
  show "payload (fst (create_purchase env req d)) \<noteq> MsgDatabaseError CompraDatosInvalidos"
  proof (cases "create_purchase_try env (body req) (connect d)")
    case (Pair res c')
    show ?thesis
    proof (cases res)
      case (Inl e)
      then have "e \<noteq> CompraDatosInvalidos"
        using create_purchase_try_errors(2)[of env b "connect d" e c'] Pair a v by simp
      then show ?thesis using Pair Inl by (simp add: create_purchase_def)
    next
      case (Inr cid)
      then show ?thesis using Pair by (simp add: create_purchase_def)
    qed
  qed
qed

text \<open>An empty item list; an item with quantity 0 after a valid one, and before one; a
  request without \<^verbatim>\<open>estado\<close>.\<close>

theorem create_purchase_validation_witness:
  "create_purchase env0 (post (compra_body [])) db_empty =
     (\<lparr>status = 500, payload = MsgDatabaseError CompraDatosInvalidos\<rparr>, db_empty)
   \<and> create_purchase env0 (post (compra_body [compra_line 7 10, compra_line 8 0])) db_empty =
       (\<lparr>status = 500, payload = MsgDatabaseError (CompraItemInvalido (JNum 8))\<rparr>, db_empty)
   \<and> status (fst (create_purchase env0 (post (compra_body [compra_line 8 0, compra_line 7 10])) db_empty)) = 500
   \<and> snd (create_purchase env0 (post (compra_body [compra_line 8 0, compra_line 7 10])) db_empty) = db_empty
   \<and> payload (fst (create_purchase env0 (post compra_sin_estado) db_empty)) \<noteq>
       MsgDatabaseError CompraDatosInvalidos"
proof -
  let ?b0 = "compra_body []"
  have h0: "http_method (post ?b0) \<noteq> ''OPTIONS'' \<and> pool_ok env0 \<and> body (post ?b0) = Some ?b0
        \<and> \<not> nullish ?b0
        \<and> (\<not> truthy (js_prop ?b0 ''id_proveedor'') \<or> \<not> truthy (js_prop ?b0 ''id_sucursal'')
            \<or> \<not> is_number (js_prop ?b0 ''monto_total'') \<or> \<not> truthy (js_prop ?b0 ''items'')
            \<or> \<not> is_array (js_prop ?b0 ''items'') \<or> elems (js_prop ?b0 ''items'') = [])"
    by (simp add: post_def compra_body_def env0_def)
  have c0: "create_purchase env0 (post ?b0) db_empty =
     (\<lparr>status = 500, payload = MsgDatabaseError CompraDatosInvalidos\<rparr>, db_empty)"
    by (rule create_purchase_validation[THEN conjunct1, rule_format, OF h0])
  let ?b = "compra_body [compra_line 7 10, compra_line 8 0]"
  let ?c1 = "snd (queryObject (insert_compra env0 (js_prop ?b ''id_proveedor'') (js_prop ?b ''id_sucursal'') 40
                          (js_prop ?b ''estado'')) (sql_begin (connect db_empty)))"
  let ?c2 = "snd (purchase_items env0 (js_prop ?b ''id_sucursal'') 1 [compra_line 7 10] ?c1)"
  have h1: "http_method (post ?b) \<noteq> ''OPTIONS'' \<and> pool_ok env0 \<and> body (post ?b) = Some ?b \<and> \<not> nullish ?b
        \<and> \<not> compra_datos_invalidos ?b \<and> num (js_prop ?b ''monto_total'') = Some 40
        \<and> queryObject (insert_compra env0 (js_prop ?b ''id_proveedor'') (js_prop ?b ''id_sucursal'') 40
                          (js_prop ?b ''estado'')) (sql_begin (connect db_empty)) = (Inr 1, ?c1)
        \<and> elems (js_prop ?b ''items'') = [compra_line 7 10] @ compra_line 8 0 # []
        \<and> purchase_items env0 (js_prop ?b ''id_sucursal'') 1 [compra_line 7 10] ?c1 = (Inr (), ?c2)
        \<and> \<not> nullish (compra_line 8 0) \<and> compra_item_invalido (compra_line 8 0)"
    by (simp add: compra_simps compra_item_invalido_def run_simps)
  have "create_purchase env0 (post ?b) db_empty =
       (\<lparr>status = 500,
         payload = MsgDatabaseError (CompraItemInvalido (js_prop (compra_line 8 0) ''id_producto''))\<rparr>, db_empty)"
    by (rule create_purchase_validation[THEN conjunct2, THEN conjunct2, THEN conjunct1, rule_format, OF h1])
  then have c1: "create_purchase env0 (post ?b) db_empty =
       (\<lparr>status = 500, payload = MsgDatabaseError (CompraItemInvalido (JNum 8))\<rparr>, db_empty)"
    by (simp add: compra_line_def)
  let ?b2 = "compra_body [compra_line 8 0, compra_line 7 10]"
  have h2: "http_method (post ?b2) \<noteq> ''OPTIONS'' \<and> body (post ?b2) = Some ?b2
        \<and> (\<exists>item\<in>set (elems (js_prop ?b2 ''items'')). compra_item_invalido item)"
    by (simp add: post_def compra_body_def compra_line_def compra_item_invalido_def)
  have c2: "status (fst (create_purchase env0 (post ?b2) db_empty)) = 500
            \<and> snd (create_purchase env0 (post ?b2) db_empty) = db_empty"
    by (rule create_purchase_validation[THEN conjunct2, THEN conjunct1, rule_format, OF h2])
  let ?b3 = "compra_sin_estado"
  have h3: "body (post ?b3) = Some ?b3 \<and> \<not> nullish ?b3
        \<and> truthy (js_prop ?b3 ''id_proveedor'') \<and> truthy (js_prop ?b3 ''id_sucursal'')
        \<and> is_number (js_prop ?b3 ''monto_total'') \<and> truthy (js_prop ?b3 ''items'')
        \<and> is_array (js_prop ?b3 ''items'') \<and> elems (js_prop ?b3 ''items'') \<noteq> []"
    by (simp add: post_def compra_sin_estado_def)
  have c3: "payload (fst (create_purchase env0 (post ?b3) db_empty)) \<noteq>
       MsgDatabaseError CompraDatosInvalidos"
    by (rule create_purchase_validation[THEN conjunct2, THEN conjunct2, THEN conjunct2, rule_format, OF h3])
  show ?thesis using c0 c1 c2 c3 by blast
qed

subsection \<open>Weighted-average cost\<close>




















end
